theory Spec2Isabelle
  imports Complex_Main
begin

section \<open>nanomix: the deconvolution core\<close>

text \<open>
  A shallow embedding of \<^verbatim>\<open>src/python/nanomix/models.py\<close> and
  \<^verbatim>\<open>src/scripts/nanomix.py\<close>. Floating-point numbers are modelled as exact reals
  extended with the three special values of IEEE arithmetic that numpy produces without
  raising (\<open>inf\<close>, \<open>-inf\<close>, \<open>nan\<close>); rounding and overflow are not modelled. The
  numerical libraries (scipy's solvers, the Dirichlet sampler, pandas and pyranges) are
  parameters of the model; \<open>binom.logpmf\<close> is written out from its documented behaviour.
\<close>

subsection \<open>Exceptions\<close>

text \<open>
  The first seven constructors are Python exceptions that the code, or a library it
  calls, can raise. The last four are the names of the specification's error taxonomy; no
  definition below produces them.
\<close>

datatype error =
    ValueError | AttributeError | ZeroDivisionError | UnboundLocalError | EmptyDataError
  | RuntimeError | KeyError
  | UnknownModelError | OptimizationFailedError | DivisionByZeroError | MalformedAtlasError

subsection \<open>numpy floats\<close>

datatype npfloat = Fin real | PInf | NInf | NaN

fun np_add :: "npfloat \<Rightarrow> npfloat \<Rightarrow> npfloat" where
  "np_add NaN b = NaN"
| "np_add a NaN = NaN"
| "np_add PInf NInf = NaN"
| "np_add NInf PInf = NaN"
| "np_add PInf b = PInf"
| "np_add a PInf = PInf"
| "np_add NInf b = NInf"
| "np_add a NInf = NInf"
| "np_add (Fin a) (Fin b) = Fin (a + b)"

fun np_neg :: "npfloat \<Rightarrow> npfloat" where
  "np_neg (Fin a) = Fin (- a)"
| "np_neg PInf = NInf"
| "np_neg NInf = PInf"
| "np_neg NaN = NaN"

definition np_sub :: "npfloat \<Rightarrow> npfloat \<Rightarrow> npfloat" where
  "np_sub a b = np_add a (np_neg b)"

text \<open>\<open>a < b\<close> on floats: every comparison with \<open>nan\<close> is false.\<close>

fun np_lt :: "npfloat \<Rightarrow> npfloat \<Rightarrow> bool" where
  "np_lt NaN b = False"
| "np_lt a NaN = False"
| "np_lt a NInf = False"
| "np_lt PInf b = False"
| "np_lt NInf b = True"
| "np_lt a PInf = True"
| "np_lt (Fin a) (Fin b) = (a < b)"

fun np_le :: "npfloat \<Rightarrow> npfloat \<Rightarrow> bool" where
  "np_le NaN b = False"
| "np_le a NaN = False"
| "np_le NInf b = True"
| "np_le a PInf = True"
| "np_le a NInf = False"
| "np_le PInf b = False"
| "np_le (Fin a) (Fin b) = (a \<le> b)"

text \<open>
  numpy's true division \<open>a / b\<close> of two finite floats: a zero divisor gives \<open>nan\<close>
  (for \<open>0/0\<close>) or a signed infinity, with a warning and no exception.
\<close>

definition np_true_divide :: "real \<Rightarrow> real \<Rightarrow> npfloat" where
  "np_true_divide a b =
     (if b = 0 then (if a = 0 then NaN else if 0 < a then PInf else NInf)
      else Fin (a / b))"

text \<open>\<open>np.sum\<close> of a float array.\<close>

definition np_sum :: "npfloat list \<Rightarrow> npfloat" where
  "np_sum xs = foldr np_add xs (Fin 0)"

text \<open>\<open>np.clip(x, 0, 1.0)\<close>, which is \<open>minimum(maximum(x, 0), 1.0)\<close> elementwise.\<close>

definition np_clip :: "real list \<Rightarrow> real list" where
  "np_clip xs = map (\<lambda>v. min (max v 0) 1) xs"

text \<open>
  Broadcasting of one-dimensional arrays: the lengths other than 1 must all be equal; an
  array of length 1 is repeated. Anything else raises \<open>ValueError\<close>.
\<close>

definition broadcast_len :: "nat list \<Rightarrow> error + nat" where
  "broadcast_len ns =
     (case remdups (filter (\<lambda>n. n \<noteq> 1) ns) of
        [] \<Rightarrow> Inr 1
      | [n] \<Rightarrow> Inr n
      | _ \<Rightarrow> Inl ValueError)"

definition broadcast_to :: "nat \<Rightarrow> 'a list \<Rightarrow> 'a list" where
  "broadcast_to n xs = (case xs of [a] \<Rightarrow> replicate n a | _ \<Rightarrow> xs)"

subsection \<open>ReferenceAtlas and Sample (scripts/nanomix.py)\<close>

text \<open>
  The table handed to \<open>ReferenceAtlas\<close> is a frame of a PyRanges object: it has the three
  coordinate columns, and any number of further labelled columns of numbers. All columns
  of a frame have the same number of entries. The further columns are labelled otherwise
  than the coordinate columns; nothing keeps two of them from carrying the same label.
\<close>

record dataframe =
  df_Chromosome :: "string list"
  df_Start :: "int list"
  df_End :: "int list"
  df_data :: "(string \<times> real list) list"

definition df_columns :: "dataframe \<Rightarrow> string list" where
  "df_columns gr = [''Chromosome'', ''Start'', ''End''] @ map fst (df_data gr)"

definition df_len :: "dataframe \<Rightarrow> nat" where
  "df_len gr = length (df_Chromosome gr)"

definition wf_frame :: "dataframe \<Rightarrow> bool" where
  "wf_frame gr \<longleftrightarrow>
     length (df_Start gr) = df_len gr \<and> length (df_End gr) = df_len gr \<and>
     list_all (\<lambda>c. length (snd c) = df_len gr) (df_data gr)"

text \<open>
  The columns of a frame that carry the label \<open>k\<close>, in the frame's order. With pandas,
  \<open>gr.loc[:, [k]]\<close> selects all of them. \<open>gr[k]\<close> is a single column when \<open>k\<close> labels one
  column, and \<open>list(gr[k])\<close> is then the list of its values; when \<open>k\<close> labels several
  columns \<open>gr[k]\<close> is a frame, and \<open>list(gr[k])\<close> is the list of that frame's column
  labels. Looking up a label that is not a column raises \<open>KeyError\<close>; the constructor
  below only looks up labels taken from the frame's own columns.
\<close>

definition df_cols :: "dataframe \<Rightarrow> string \<Rightarrow> real list list" where
  "df_cols gr k = map snd (filter (\<lambda>c. fst c = k) (df_data gr))"

datatype column_list = Values "real list" | Labels "string list"

definition list_of_column :: "dataframe \<Rightarrow> string \<Rightarrow> column_list" where
  "list_of_column gr k =
     (case df_cols gr k of [c] \<Rightarrow> Values c | cs \<Rightarrow> Labels (map (\<lambda>c. k) cs))"

record ReferenceAtlas =
  atlas_cpg_ids :: "(string \<times> int \<times> int) list"
  atlas_K :: nat
  atlas_v :: "(string \<times> column_list) list"
  atlas_A :: "real list list"

text \<open>
  \<open>cell_types = set(gr.columns) - {'Chromosome', 'Start', 'End', 'type'}\<close>. A Python set
  has no duplicates and an iteration order of its own; the model iterates it in column
  order. \<open>K\<close> is the size of that set, and \<open>A\<close> is the array of
  \<open>gr.loc[:, list(cell_types)]\<close>: for each label of the set, every column that carries it.
\<close>

definition cell_types_of :: "dataframe \<Rightarrow> string list" where
  "cell_types_of gr =
     remdups (filter (\<lambda>c. c \<notin> {''Chromosome'', ''Start'', ''End'', ''type''}) (df_columns gr))"

definition ReferenceAtlas_init :: "dataframe \<Rightarrow> ReferenceAtlas" where
  "ReferenceAtlas_init gr =
     (let cell_types = cell_types_of gr in
      \<lparr> atlas_cpg_ids = zip (df_Chromosome gr) (zip (df_Start gr) (df_End gr)),
        atlas_K = length cell_types,
        atlas_v = map (\<lambda>k. (k, list_of_column gr k)) cell_types,
        atlas_A = map (\<lambda>i. concat (map (\<lambda>k. map (\<lambda>c. c ! i) (df_cols gr k)) cell_types))
                    [0 ..< df_len gr] \<rparr>)"

text \<open>\<open>get_x\<close>: \<open>np.matmul(self.A, sigma)\<close> for a column vector \<open>sigma\<close> of \<open>K\<close> rows.\<close>

definition get_x :: "ReferenceAtlas \<Rightarrow> real list \<Rightarrow> real list" where
  "get_x atlas sigma = map (\<lambda>row. sum_list (map2 (*) row sigma)) (atlas_A atlas)"

definition get_num_cpgs :: "ReferenceAtlas \<Rightarrow> nat" where
  "get_num_cpgs atlas = length (atlas_cpg_ids atlas)"

definition get_cell_types :: "ReferenceAtlas \<Rightarrow> string list" where
  "get_cell_types atlas = map fst (atlas_v atlas)"

definition get_num_cell_types :: "ReferenceAtlas \<Rightarrow> nat" where
  "get_num_cell_types atlas = length (map fst (atlas_v atlas))"

text \<open>
  A sample holds the call counts as float arrays of whole numbers; \<open>x_hat\<close> is whatever
  the caller passes in.
\<close>

record Sample =
  sample_name :: string
  sample_x_hat :: "npfloat list"
  sample_m :: "nat list"
  sample_t :: "nat list"

definition Sample_init :: "string \<Rightarrow> npfloat list \<Rightarrow> nat list \<Rightarrow> nat list \<Rightarrow> Sample" where
  "Sample_init name x_hat m t =
     \<lparr> sample_name = name, sample_x_hat = x_hat, sample_m = m, sample_t = t \<rparr>"

definition eq_constraint :: "real list \<Rightarrow> real" where
  "eq_constraint x = 1 - sum_list x"

subsection \<open>Likelihood models\<close>

text \<open>
  \<open>scipy.special.xlogy(x, y)\<close> is \<open>x * log(y)\<close>, and 0 when \<open>x = 0\<close>;
  \<open>xlog1py(x, y)\<close> is \<open>x * log1p(y)\<close>, and 0 when \<open>x = 0\<close>. Both are used here with
  \<open>x \<ge> 0\<close> and \<open>y\<close> in the domain of the logarithm or on its edge.
\<close>

definition xlogy :: "real \<Rightarrow> real \<Rightarrow> npfloat" where
  "xlogy a y = (if a = 0 then Fin 0 else if y = 0 then NInf else Fin (a * ln y))"

definition xlog1py :: "real \<Rightarrow> real \<Rightarrow> npfloat" where
  "xlog1py a y = (if a = 0 then Fin 0 else if y = - 1 then NInf else Fin (a * ln (1 + y)))"

text \<open>
  \<open>scipy.stats.binom.logpmf(k, n, p)\<close> for whole numbers \<open>k\<close> and \<open>n\<close>: \<open>nan\<close> when the
  parameters are not those of a binomial distribution (\<open>p\<close> outside \<open>[0, 1]\<close>), \<open>-inf\<close>
  when \<open>k\<close> is outside the support \<open>0..n\<close>, and otherwise
  \<open>log C(n, k) + xlogy(k, p) + xlog1py(n - k, -p)\<close>.
\<close>

definition binom_logpmf :: "nat \<Rightarrow> nat \<Rightarrow> real \<Rightarrow> npfloat" where
  "binom_logpmf k n p =
     (if \<not> (0 \<le> p \<and> p \<le> 1) then NaN
      else if n < k then NInf
      else np_add (Fin (ln (real (n choose k))))
             (np_add (xlogy (real k) p) (xlog1py (real (n - k)) (- p))))"

text \<open>The same on arrays, with numpy's broadcasting of the three arguments.\<close>

definition binom_logpmf_arr :: "nat list \<Rightarrow> nat list \<Rightarrow> real list \<Rightarrow> error + npfloat list" where
  "binom_logpmf_arr ks ns ps =
     (case broadcast_len [length ks, length ns, length ps] of
        Inl e \<Rightarrow> Inl e
      | Inr l \<Rightarrow>
          Inr (map (\<lambda>(k, n, p). binom_logpmf k n p)
                 (zip (broadcast_to l ks) (zip (broadcast_to l ns) (broadcast_to l ps)))))"

text \<open>
  \<open>sigma.reshape((atlas.K, 1))\<close> raises \<open>ValueError\<close> unless \<open>sigma\<close> has \<open>K\<close> entries.
\<close>

definition reshape_K1 :: "ReferenceAtlas \<Rightarrow> real list \<Rightarrow> error + real list" where
  "reshape_K1 atlas sigma = (if length sigma = atlas_K atlas then Inr sigma else Inl ValueError)"

definition log_likelihood_sequencing_perfect ::
  "ReferenceAtlas \<Rightarrow> real list \<Rightarrow> Sample \<Rightarrow> real \<Rightarrow> real \<Rightarrow> error + npfloat" where
  "log_likelihood_sequencing_perfect atlas sigma sample p01 p11 =
     (case reshape_K1 atlas sigma of
        Inl e \<Rightarrow> Inl e
      | Inr sigma_t \<Rightarrow>
          (let x = np_clip (get_x atlas sigma_t) in
           case binom_logpmf_arr (sample_m sample) (sample_t sample) x of
             Inl e \<Rightarrow> Inl e
           | Inr b \<Rightarrow> Inr (np_sum b)))"

text \<open>
  \<open>math.log(math.comb(int(t), int(m)))\<close>: \<open>math.comb\<close> is 0 when \<open>m > t\<close>, and
  \<open>math.log(0)\<close> raises \<open>ValueError\<close>.
\<close>

definition log_comb :: "nat \<Rightarrow> nat \<Rightarrow> error + real" where
  "log_comb m t = (if t choose m = 0 then Inl ValueError else Inr (ln (real (t choose m))))"

text \<open>
  \<open>sum([... for m, t in zip(sample.m, sample.t)])\<close>: the list is built first, left to
  right, so the first failing site raises.
\<close>

fun binomial_coef :: "(nat \<times> nat) list \<Rightarrow> error + real" where
  "binomial_coef [] = Inr 0"
| "binomial_coef ((m, t) # rest) =
     (case log_comb m t of
        Inl e \<Rightarrow> Inl e
      | Inr c \<Rightarrow> (case binomial_coef rest of Inl e \<Rightarrow> Inl e | Inr s \<Rightarrow> Inr (c + s)))"

definition log_likelihood_sequencing_with_errors ::
  "ReferenceAtlas \<Rightarrow> real list \<Rightarrow> Sample \<Rightarrow> real \<Rightarrow> real \<Rightarrow> error + npfloat" where
  "log_likelihood_sequencing_with_errors atlas sigma sample p01 p11 =
     (case reshape_K1 atlas sigma of
        Inl e \<Rightarrow> Inl e
      | Inr sigma_t \<Rightarrow>
          (let x = np_clip (get_x atlas sigma_t);
               p = (if p11 \<noteq> 0 then map (\<lambda>xi. xi * p11 + (1 - xi) * p01) x
                    else map (\<lambda>xi. xi * (1 - p01) + (1 - xi) * p01) x)
           in case binom_logpmf_arr (sample_m sample) (sample_t sample) p of
                Inl e \<Rightarrow> Inl e
              | Inr b \<Rightarrow>
                  (case binomial_coef (zip (sample_m sample) (sample_t sample)) of
                     Inl e \<Rightarrow> Inl e
                   | Inr c \<Rightarrow> Inr (np_sub (np_sum b) (Fin c)))))"

subsection \<open>External solvers\<close>

text \<open>
  The three scipy routines the drivers call are parameters of the model. Each may raise.
  \<^item> \<open>scipy.optimize.nnls(A, b)\<close> returns the pair of a solution vector and a residual
    norm.
  \<^item> \<open>scipy.optimize.minimize(f, x0, method=..., options={'maxiter': ..., 'disp': ...},
    bounds=..., constraints=...)\<close> returns a result with the fields \<open>x\<close> and \<open>fun\<close>.
    A constraint is a dictionary with a \<open>type\<close> and a function.
  \<^item> \<open>scipy.stats.dirichlet.rvs(alpha, size=n)\<close> returns a list of random vectors; the
    parameter stands for the draws of one run.
\<close>

record optimize_result =
  res_x :: "real list"
  res_fun :: npfloat

record minimize_args =
  arg_fun :: "real list \<Rightarrow> error + npfloat"
  arg_x0 :: "real list"
  arg_method :: string
  arg_maxiter :: nat
  arg_disp :: bool
  arg_bounds :: "(real \<times> real) list"
  arg_constraints :: "(string \<times> (real list \<Rightarrow> real)) list"

record solvers =
  sv_nnls :: "real list list \<Rightarrow> npfloat list \<Rightarrow> error + (real list \<times> real)"
  sv_minimize :: "minimize_args \<Rightarrow> error + optimize_result"
  sv_rvs :: "real list \<Rightarrow> nat \<Rightarrow> error + real list list"

subsection \<open>Optimization drivers (models.py)\<close>

text \<open>\<open>v / np.sum(v)\<close>: every entry divided by the sum of the vector.\<close>

definition divide_by_sum :: "real list \<Rightarrow> npfloat list" where
  "divide_by_sum v = map (\<lambda>a. np_true_divide a (sum_list v)) v"

text \<open>
  \<open>[1.0 / atlas.K] * atlas.K\<close>: the division is Python's, which raises
  \<open>ZeroDivisionError\<close> for \<open>K = 0\<close>.
\<close>

definition uniform_vector :: "nat \<Rightarrow> error + real list" where
  "uniform_vector k = (if k = 0 then Inl ZeroDivisionError else Inr (replicate k (1 / real k)))"

definition fit_uniform :: "ReferenceAtlas \<Rightarrow> Sample \<Rightarrow> error + npfloat list" where
  "fit_uniform atlas sample =
     (case uniform_vector (atlas_K atlas) of
        Inl e \<Rightarrow> Inl e
      | Inr u \<Rightarrow> Inr (map Fin u))"

definition fit_nnls :: "solvers \<Rightarrow> ReferenceAtlas \<Rightarrow> Sample \<Rightarrow> error + npfloat list" where
  "fit_nnls sv atlas sample =
     (let t = replicate (atlas_K atlas) 1;
          A = atlas_A atlas @ [t];
          b = sample_x_hat sample @ [Fin 1]
      in case sv_nnls sv A b of
           Inl e \<Rightarrow> Inl e
         | Inr res \<Rightarrow> Inr (divide_by_sum (fst res)))"

text \<open>
  The arguments of every \<open>minimize\<close> call of the drivers: method SLSQP, at most 100
  iterations, the bounds \<open>(0.0, 1.0)\<close> for each of the \<open>K\<close> coordinates and the one
  equality constraint \<open>eq_constraint\<close>.
\<close>

definition slsqp_call ::
  "(real list \<Rightarrow> error + npfloat) \<Rightarrow> ReferenceAtlas \<Rightarrow> real list \<Rightarrow> minimize_args" where
  "slsqp_call f atlas init =
     \<lparr> arg_fun = f, arg_x0 = init, arg_method = ''SLSQP'', arg_maxiter = 100,
       arg_disp = False, arg_bounds = replicate (atlas_K atlas) (0, 1),
       arg_constraints = [(''eq'', eq_constraint)] \<rparr>"

text \<open>
  The loop over the initializations, with its two variables \<open>best_ll\<close> and \<open>best_sol\<close>
  (\<open>None\<close> until a trial's objective is below \<open>best_ll\<close>).
\<close>

fun trial_loop ::
  "solvers \<Rightarrow> (real list \<Rightarrow> minimize_args) \<Rightarrow> real list list \<Rightarrow>
   npfloat \<times> optimize_result option \<Rightarrow> error + (npfloat \<times> optimize_result option)" where
  "trial_loop sv call [] st = Inr st"
| "trial_loop sv call (init # rest) (best_ll, best_sol) =
     (case sv_minimize sv (call init) of
        Inl e \<Rightarrow> Inl e
      | Inr res \<Rightarrow>
          (let ll = res_fun res in
           if np_lt ll best_ll then trial_loop sv call rest (ll, Some res)
           else trial_loop sv call rest (best_ll, best_sol)))"

text \<open>
  \<open>return best_sol.x / np.sum(best_sol.x)\<close>: reading \<open>.x\<close> of \<open>None\<close> raises
  \<open>AttributeError\<close>.
\<close>

definition return_best :: "optimize_result option \<Rightarrow> error + npfloat list" where
  "return_best best_sol =
     (case best_sol of
        None \<Rightarrow> Inl AttributeError
      | Some res \<Rightarrow> Inr (divide_by_sum (res_x res)))"

definition multi_start ::
  "solvers \<Rightarrow> (real list \<Rightarrow> error + npfloat) \<Rightarrow> ReferenceAtlas \<Rightarrow> error + npfloat list" where
  "multi_start sv f atlas =
     (case uniform_vector (atlas_K atlas) of
        Inl e \<Rightarrow> Inl e
      | Inr alpha \<Rightarrow>
          (let n_trials = 10; best_ll = PInf; best_sol = None in
           case sv_rvs sv alpha n_trials of
             Inl e \<Rightarrow> Inl e
           | Inr initializations \<Rightarrow>
               (case trial_loop sv (slsqp_call f atlas) initializations (best_ll, best_sol) of
                  Inl e \<Rightarrow> Inl e
                | Inr (best_ll', best_sol') \<Rightarrow> return_best best_sol')))"

text \<open>The objective \<open>lambda x: -1 * log_likelihood(...)\<close>.\<close>

definition neg_objective ::
  "(real list \<Rightarrow> error + npfloat) \<Rightarrow> real list \<Rightarrow> error + npfloat" where
  "neg_objective ll x = (case ll x of Inl e \<Rightarrow> Inl e | Inr v \<Rightarrow> Inr (np_neg v))"

definition fit_llsp ::
  "solvers \<Rightarrow> ReferenceAtlas \<Rightarrow> Sample \<Rightarrow> real \<Rightarrow> real \<Rightarrow> error + npfloat list" where
  "fit_llsp sv atlas sample p01 p11 =
     (let f = neg_objective (\<lambda>x. log_likelihood_sequencing_perfect atlas x sample p01 p11)
      in multi_start sv f atlas)"

definition fit_llse ::
  "solvers \<Rightarrow> ReferenceAtlas \<Rightarrow> Sample \<Rightarrow> real \<Rightarrow> real \<Rightarrow> error + npfloat list" where
  "fit_llse sv atlas sample p01 p11 =
     (let f = neg_objective (\<lambda>x. log_likelihood_sequencing_with_errors atlas x sample p01 p11)
      in multi_start sv f atlas)"

subsection \<open>Optimization drivers with a single-start mode (scripts/nanomix.py)\<close>

text \<open>
  The script's drivers take a flag \<open>random_inits\<close>: when it is set they are the drivers
  above; otherwise they run the minimizer once, from the uniform vector \<open>alpha\<close>.
\<close>

definition single_start ::
  "solvers \<Rightarrow> (real list \<Rightarrow> error + npfloat) \<Rightarrow> ReferenceAtlas \<Rightarrow> error + npfloat list" where
  "single_start sv f atlas =
     (case uniform_vector (atlas_K atlas) of
        Inl e \<Rightarrow> Inl e
      | Inr alpha \<Rightarrow>
          (case sv_minimize sv (slsqp_call f atlas alpha) of
             Inl e \<Rightarrow> Inl e
           | Inr res \<Rightarrow> Inr (divide_by_sum (res_x res))))"

definition script_fit_llsp ::
  "solvers \<Rightarrow> ReferenceAtlas \<Rightarrow> Sample \<Rightarrow> real \<Rightarrow> real \<Rightarrow> bool \<Rightarrow> error + npfloat list" where
  "script_fit_llsp sv atlas sample p01 p11 random_inits =
     (let f = neg_objective (\<lambda>x. log_likelihood_sequencing_perfect atlas x sample p01 p11)
      in if random_inits then multi_start sv f atlas else single_start sv f atlas)"

definition script_fit_llse ::
  "solvers \<Rightarrow> ReferenceAtlas \<Rightarrow> Sample \<Rightarrow> real \<Rightarrow> real \<Rightarrow> bool \<Rightarrow> error + npfloat list" where
  "script_fit_llse sv atlas sample p01 p11 random_inits =
     (let f = neg_objective (\<lambda>x. log_likelihood_sequencing_with_errors atlas x sample p01 p11)
      in if random_inits then multi_start sv f atlas else single_start sv f atlas)"

text \<open>
  Lines 184 to 193 of the script's \<open>deconvolve\<close>: the choice of the driver, and the use
  of its result. There is no branch for \<open>null\<close>, and the last branch builds an exception
  without raising it, so for any other name \<open>sigma\<close> is unassigned when
  \<open>Y.append(sigma)\<close> reads it. (The model name is the same for every methylome of a run,
  so no earlier pass of the loop has assigned it.)
\<close>

definition deconvolve_select ::
  "solvers \<Rightarrow> string \<Rightarrow> ReferenceAtlas \<Rightarrow> Sample \<Rightarrow> real \<Rightarrow> real \<Rightarrow> bool \<Rightarrow>
   error + npfloat list" where
  "deconvolve_select sv model atlas s p01 p11 random_inits =
     (if model = ''nnls'' then fit_nnls sv atlas s
      else if model = ''llse'' then script_fit_llse sv atlas s p01 p11 random_inits
      else if model = ''llsp'' then script_fit_llsp sv atlas s p01 p11 random_inits
      else Inl UnboundLocalError)"

subsection \<open>fit_model (models.py)\<close>

text \<open>
  Reading and joining the two tables is the work of pandas and pyranges, which are
  parameters: \<open>read_csv\<close> reads a file (and raises \<open>EmptyDataError\<close> on an empty one),
  \<open>atlas_ranges\<close> and \<open>sample_ranges\<close> stand for the cleaning of each table and its
  conversion to sorted ranges, \<open>join\<close> for the join. Of the joined table the code uses the
  atlas's columns and, for every row, the two call counts, which it converts to floats.
  The tables are taken to have the columns the code names: the coordinates in both, and
  \<open>total_calls\<close> and \<open>modified_calls\<close>, holding counts, in the methylome.
  \<open>fit_model\<close> takes \<open>ReferenceAtlas\<close> and \<open>Sample\<close> from a module that is not among the
  sources; the classes of these names in scripts/nanomix.py are used.
\<close>

record joined =
  j_atlas :: dataframe
  j_calls :: "(nat \<times> nat) list"

record ('df, 'gr) table_io =
  read_csv :: "string \<Rightarrow> error + 'df"
  atlas_ranges :: "'df \<Rightarrow> 'gr"
  sample_ranges :: "'df \<Rightarrow> 'gr"
  join :: "'gr \<Rightarrow> 'gr \<Rightarrow> joined"

text \<open>
  Line 56, \<open>gr.df.loc[:, gr_atlas.columns]\<close>: ranges without rows have a frame without
  columns, and selecting the atlas's columns from it raises \<open>KeyError\<close>.
\<close>

definition atlas_columns :: "joined \<Rightarrow> error + dataframe" where
  "atlas_columns gr = (if df_len (j_atlas gr) = 0 then Inl KeyError else Inr (j_atlas gr))"

text \<open>
  Lines 57 to 61: \<open>t\<close> and \<open>m\<close> are the columns \<open>total_calls\<close> and \<open>modified_calls\<close> of
  the joined table, \<open>xhat = m/t\<close> is numpy's elementwise division, which does not raise.
\<close>

definition make_sample :: "string \<Rightarrow> (nat \<times> nat) list \<Rightarrow> Sample" where
  "make_sample name calls =
     (let t = map fst calls;
          m = map snd calls;
          xhat = map2 (\<lambda>mi ti. np_true_divide (real mi) (real ti)) m t
      in Sample_init name xhat m t)"

text \<open>Lines 62 to 72: the choice of the driver by the model's name.\<close>

definition select_model ::
  "solvers \<Rightarrow> string \<Rightarrow> ReferenceAtlas \<Rightarrow> Sample \<Rightarrow> real \<Rightarrow> real \<Rightarrow> error + npfloat list" where
  "select_model sv model atlas s p01 p11 =
     (if model = ''nnls'' then fit_nnls sv atlas s
      else if model = ''llse'' then fit_llse sv atlas s p01 p11
      else if model = ''llsp'' then fit_llsp sv atlas s p01 p11
      else if model = ''null'' then fit_uniform atlas s
      else Inl ValueError)"

text \<open>
  The result is paired with the list of the files read, in order. An empty methylome file
  is caught, but the exception built in the handler is not raised, so the next statement
  reads the unassigned variable \<open>df\<close>. The check for an empty join builds an exception
  and does not raise it either, so it has no effect: on an empty join the next statement,
  which selects the atlas's columns, raises \<open>KeyError\<close>.
\<close>

definition fit_model ::
  "('df, 'gr) table_io \<Rightarrow> solvers \<Rightarrow> string \<Rightarrow> string \<Rightarrow> string \<Rightarrow> real \<Rightarrow> real \<Rightarrow>
   (error + npfloat list) \<times> string list" where
  "fit_model io sv methylome atlas_path model p01 p11 =
     (case read_csv io atlas_path of
        Inl e \<Rightarrow> (Inl e, [atlas_path])
      | Inr df_atlas \<Rightarrow>
          (let gr_atlas = atlas_ranges io df_atlas in
           case read_csv io methylome of
             Inl e \<Rightarrow>
               (Inl (if e = EmptyDataError then UnboundLocalError else e),
                [atlas_path, methylome])
           | Inr df \<Rightarrow>
               (let gr_sample = sample_ranges io df;
                    gr = join io gr_atlas gr_sample
                in case atlas_columns gr of
                     Inl e \<Rightarrow> (Inl e, [atlas_path, methylome])
                   | Inr atlas_frame \<Rightarrow>
                       (let atlas = ReferenceAtlas_init atlas_frame;
                            s = make_sample ''methylome'' (j_calls gr)
                        in (select_model sv model atlas s p01 p11,
                            [atlas_path, methylome])))))"

subsection \<open>The formulas of the specification\<close>

text \<open>
  The definitions of this subsection follow the words of the specification, not the code:
  the binomial probability mass function, the logarithm of a probability (\<open>-inf\<close> for
  probability 0), the expected methylation \<open>x[i]\<close> and the call probability \<open>p[i]\<close> of
  site \<open>i\<close>, and the sequencing-error log-likelihood as a sum over the sites. A
  probability outside \<open>[0, 1]\<close> has no binomial distribution; its log-pmf is \<open>nan\<close>.
  \<open>wf_atlas\<close> says that \<open>A\<close> is a matrix of \<open>K\<close> columns.
\<close>

definition wf_atlas :: "ReferenceAtlas \<Rightarrow> bool" where
  "wf_atlas atlas \<longleftrightarrow> list_all (\<lambda>row. length row = atlas_K atlas) (atlas_A atlas)"

definition log_prob :: "real \<Rightarrow> npfloat" where
  "log_prob q = (if q = 0 then NInf else Fin (ln q))"

definition binom_pmf :: "nat \<Rightarrow> nat \<Rightarrow> real \<Rightarrow> real" where
  "binom_pmf k n p = real (n choose k) * p ^ k * (1 - p) ^ (n - k)"

definition spec_binom_logpmf :: "nat \<Rightarrow> nat \<Rightarrow> real \<Rightarrow> npfloat" where
  "spec_binom_logpmf k n p = (if 0 \<le> p \<and> p \<le> 1 then log_prob (binom_pmf k n p) else NaN)"

definition spec_x :: "ReferenceAtlas \<Rightarrow> real list \<Rightarrow> nat \<Rightarrow> real" where
  "spec_x atlas sigma i =
     min (max (\<Sum>j<atlas_K atlas. atlas_A atlas ! i ! j * sigma ! j) 0) 1"

definition spec_p :: "ReferenceAtlas \<Rightarrow> real list \<Rightarrow> real \<Rightarrow> real \<Rightarrow> nat \<Rightarrow> real" where
  "spec_p atlas sigma p01 p11 i =
     (if p11 \<noteq> 0 then spec_x atlas sigma i * p11 + (1 - spec_x atlas sigma i) * p01
      else spec_x atlas sigma i * (1 - p01) + (1 - spec_x atlas sigma i) * p01)"

definition spec_log_likelihood_with_errors ::
  "ReferenceAtlas \<Rightarrow> real list \<Rightarrow> Sample \<Rightarrow> real \<Rightarrow> real \<Rightarrow> npfloat" where
  "spec_log_likelihood_with_errors atlas sigma sample p01 p11 =
     np_sub
       (np_sum (map (\<lambda>i. spec_binom_logpmf (sample_m sample ! i) (sample_t sample ! i)
                            (spec_p atlas sigma p01 p11 i))
                  [0 ..< length (atlas_A atlas)]))
       (Fin (\<Sum>i<length (atlas_A atlas).
               ln (real (sample_t sample ! i choose sample_m sample ! i))))"



text \<open>
  The concrete scenario of the specification: two cell types, three sites.
\<close>

definition example_frame :: dataframe where
  "example_frame =
     \<lparr> df_Chromosome = [''chr1'', ''chr1'', ''chr2''],
       df_Start = [100, 200, 300],
       df_End = [101, 201, 301],
       df_data = [(''Lung cells'', [1, 0, 1/2]), (''Monocytes EPIC'', [0, 1, 1/2])] \<rparr>"

definition example_atlas :: ReferenceAtlas where
  "example_atlas = ReferenceAtlas_init example_frame"

definition example_sample :: Sample where
  "example_sample =
     Sample_init ''methylome'' [Fin (9/10), Fin (1/10), Fin (1/2)] [9, 1, 5] [10, 10, 10]"

subsection \<open>Solver contracts and valid inputs\<close>

text \<open>
  What the theorems below assume of the external solvers, and of the data.
  \<^item> A vector is feasible for a \<open>minimize\<close> call when it respects the call's bounds and
    meets each equality constraint to within an absolute error below 1 (any tolerance of
    a real solver is far smaller).
  \<^item> \<open>minimize\<close> keeps its contract when every result it returns is feasible for the
    call that produced it.
  \<^item> \<open>nnls\<close> keeps its contract when, for a finite right-hand side, the vector it returns
    has one entry per column of the matrix, is non-negative, and has the least residual
    \<open>||A x - b||^2\<close> among the non-negative vectors.
  \<^item> A valid atlas has at least one cell type and a matrix of \<open>K\<close> columns with entries
    in \<open>[0, 1]\<close>; a valid sample has, for each site, counts \<open>0 < t\<close> and \<open>m \<le> t\<close> and
    \<open>x_hat = m / t\<close>; a valid joined table gives rise to a valid sample, and to a valid
    atlas when no two of its columns carry the same label.
  \<^item> A mixture vector is on the simplex when its entries are finite and non-negative and
    sum to 1.
\<close>

definition feasible :: "minimize_args \<Rightarrow> real list \<Rightarrow> bool" where
  "feasible args x \<longleftrightarrow>
     list_all2 (\<lambda>v (lo, hi). lo \<le> v \<and> v \<le> hi) x (arg_bounds args) \<and>
     list_all (\<lambda>(ty, g). ty = ''eq'' \<longrightarrow> \<bar>g x\<bar> < 1) (arg_constraints args)"

definition minimize_contract :: "(minimize_args \<Rightarrow> error + optimize_result) \<Rightarrow> bool" where
  "minimize_contract mn \<longleftrightarrow> (\<forall>args res. mn args = Inr res \<longrightarrow> feasible args (res_x res))"

definition residual :: "real list list \<Rightarrow> real list \<Rightarrow> real list \<Rightarrow> real" where
  "residual A x b = (\<Sum>(row, bi)\<leftarrow>zip A b. (sum_list (map2 (*) row x) - bi)\<^sup>2)"

definition nnls_contract ::
  "(real list list \<Rightarrow> npfloat list \<Rightarrow> error + (real list \<times> real)) \<Rightarrow> bool" where
  "nnls_contract nnls \<longleftrightarrow>
     (\<forall>A b x r. nnls A (map Fin b) = Inr (x, r) \<longrightarrow>
        list_all (\<lambda>row. length row = length x) A \<and> list_all (\<lambda>a. 0 \<le> a) x \<and>
        (\<forall>y. length y = length x \<and> list_all (\<lambda>a. 0 \<le> a) y \<longrightarrow>
             residual A x b \<le> residual A y b))"

definition valid_atlas :: "ReferenceAtlas \<Rightarrow> bool" where
  "valid_atlas atlas \<longleftrightarrow>
     1 \<le> atlas_K atlas \<and> wf_atlas atlas \<and>
     list_all (list_all (\<lambda>a. 0 \<le> a \<and> a \<le> 1)) (atlas_A atlas)"

definition valid_sample :: "nat \<Rightarrow> Sample \<Rightarrow> bool" where
  "valid_sample n s \<longleftrightarrow>
     length (sample_m s) = n \<and> length (sample_t s) = n \<and>
     list_all2 (\<lambda>mi ti. 0 < ti \<and> mi \<le> ti) (sample_m s) (sample_t s) \<and>
     sample_x_hat s = map2 (\<lambda>mi ti. Fin (real mi / real ti)) (sample_m s) (sample_t s)"

definition valid_joined :: "joined \<Rightarrow> bool" where
  "valid_joined j \<longleftrightarrow>
     wf_frame (j_atlas j) \<and> cell_types_of (j_atlas j) \<noteq> [] \<and>
     list_all (\<lambda>(k, c). k \<noteq> ''type'' \<longrightarrow> list_all (\<lambda>a. 0 \<le> a \<and> a \<le> 1) c) (df_data (j_atlas j)) \<and>
     length (j_calls j) = df_len (j_atlas j) \<and>
     list_all (\<lambda>(t, m). 0 < t \<and> m \<le> t) (j_calls j)"

definition on_simplex :: "npfloat list \<Rightarrow> bool" where
  "on_simplex sigma \<longleftrightarrow> (\<exists>v. sigma = map Fin v \<and> list_all (\<lambda>a. 0 \<le> a) v \<and> sum_list v = 1)"

subsection \<open>The trial loop as a fold\<close>

text \<open>
  One pass of the loop body on a trial's result, and the invariant of the loop: \<open>best_ll\<close>
  is never \<open>nan\<close>, it is below or equal to the objective of every trial seen whose
  objective is a number, and \<open>best_sol\<close> is either \<open>None\<close> with \<open>best_ll = inf\<close> or a
  trial seen whose objective is \<open>best_ll < inf\<close>.
\<close>

definition keep_better ::
  "npfloat \<times> optimize_result option \<Rightarrow> optimize_result \<Rightarrow> npfloat \<times> optimize_result option" where
  "keep_better st res =
     (if np_lt (res_fun res) (fst st) then (res_fun res, Some res) else st)"

definition best_so_far :: "optimize_result list \<Rightarrow> npfloat \<times> optimize_result option \<Rightarrow> bool" where
  "best_so_far seen st \<longleftrightarrow>
     fst st \<noteq> NaN \<and>
     (\<forall>r\<in>set seen. res_fun r \<noteq> NaN \<longrightarrow> np_le (fst st) (res_fun r)) \<and>
     (case snd st of
        None \<Rightarrow> fst st = PInf
      | Some b \<Rightarrow> b \<in> set seen \<and> res_fun b = fst st \<and> np_lt (fst st) PInf)"

subsection \<open>Concrete solvers and inputs\<close>

text \<open>
  Stand-ins for the external parts, used to run the model on concrete inputs:
  a least-squares solver that knows the solution of the scenario above (its residual is
  0) and gives up on anything else; a minimizer that stops at its starting point when
  that point is feasible, reporting the objective there; a sampler that returns the
  concentration vector itself; a second sampler and minimizer with ten different starts
  and objective values; a reader that knows two files, and joins that return the
  scenario's table, the same table with a site without calls, and no rows at all; a table
  with two columns of the same label, a table with no cell-type column, and a one-site
  table whose only cell type is never methylated while the sample has a methylated call
  there.
\<close>

definition example_nnls :: "real list list \<Rightarrow> npfloat list \<Rightarrow> error + (real list \<times> real)" where
  "example_nnls A b =
     (if A = [[1, 0], [0, 1], [1/2, 1/2], [1, 1]] \<and> b = [Fin (9/10), Fin (1/10), Fin (1/2), Fin 1]
      then Inr ([9/10, 1/10], 0) else Inl RuntimeError)"

definition example_minimize :: "minimize_args \<Rightarrow> error + optimize_result" where
  "example_minimize args =
     (if feasible args (arg_x0 args) then
        (case arg_fun args (arg_x0 args) of
           Inl e \<Rightarrow> Inl e
         | Inr v \<Rightarrow> Inr \<lparr> res_x = arg_x0 args, res_fun = v \<rparr>)
      else Inl RuntimeError)"

definition example_rvs :: "real list \<Rightarrow> nat \<Rightarrow> error + real list list" where
  "example_rvs alpha n = Inr (replicate n alpha)"

definition example_solvers :: solvers where
  "example_solvers =
     \<lparr> sv_nnls = example_nnls, sv_minimize = example_minimize, sv_rvs = example_rvs \<rparr>"

definition spread_rvs :: "real list \<Rightarrow> nat \<Rightarrow> error + real list list" where
  "spread_rvs alpha n = Inr (map (\<lambda>i. [1 - real i / 10, real i / 10]) [0 ..< n])"

definition canned_minimize :: "minimize_args \<Rightarrow> error + optimize_result" where
  "canned_minimize args =
     Inr \<lparr> res_x = arg_x0 args, res_fun = Fin ((hd (arg_x0 args) - 3/10)\<^sup>2) \<rparr>"

definition canned_solvers :: solvers where
  "canned_solvers =
     \<lparr> sv_nnls = example_nnls, sv_minimize = canned_minimize, sv_rvs = spread_rvs \<rparr>"

definition example_io :: "(string, string) table_io" where
  "example_io =
     \<lparr> read_csv = (\<lambda>path. if path = ''atlas.tsv'' \<or> path = ''sample.tsv'' then Inr path
                          else Inl EmptyDataError),
       atlas_ranges = (\<lambda>df. df),
       sample_ranges = (\<lambda>df. df),
       join = (\<lambda>a s. \<lparr> j_atlas = example_frame, j_calls = [(10, 9), (10, 1), (10, 5)] \<rparr>) \<rparr>"

definition zero_calls_io :: "(string, string) table_io" where
  "zero_calls_io =
     example_io \<lparr> join := (\<lambda>a s. \<lparr> j_atlas = example_frame,
                                     j_calls = [(0, 0), (10, 1), (10, 5)] \<rparr>) \<rparr>"

definition empty_join_io :: "(string, string) table_io" where
  "empty_join_io =
     example_io \<lparr> join := (\<lambda>a s. \<lparr> j_atlas = \<lparr> df_Chromosome = [], df_Start = [], df_End = [],
                                                  df_data = [(''Lung cells'', []),
                                                             (''Monocytes EPIC'', [])] \<rparr>,
                                     j_calls = [] \<rparr>) \<rparr>"

definition twin_frame :: dataframe where
  "twin_frame =
     \<lparr> df_Chromosome = [''chr1'', ''chr1''], df_Start = [100, 200], df_End = [101, 201],
       df_data = [(''Lung cells'', [1, 0]), (''Lung cells'', [0, 1])] \<rparr>"

definition bare_frame :: dataframe where
  "bare_frame =
     \<lparr> df_Chromosome = [''chr1'', ''chr1''], df_Start = [100, 200], df_End = [101, 201],
       df_data = [(''type'', [0, 0])] \<rparr>"

definition dark_frame :: dataframe where
  "dark_frame =
     \<lparr> df_Chromosome = [''chr1''], df_Start = [100], df_End = [101],
       df_data = [(''Lung cells'', [0])] \<rparr>"

definition dark_atlas :: ReferenceAtlas where
  "dark_atlas = ReferenceAtlas_init dark_frame"

definition lit_sample :: Sample where
  "lit_sample = make_sample ''methylome'' [(1, 1)]"

subsection \<open>Properties of the likelihood models\<close>


lemma length_np_clip: "length (np_clip xs) = length xs"
  by (simp add: np_clip_def)

lemma length_get_x: "length (get_x atlas sigma) = length (atlas_A atlas)"
  by (simp add: get_x_def)






lemma broadcast_len_same: "broadcast_len [n, n, n] = Inr n"
  by (simp add: broadcast_len_def)

lemma broadcast_to_same: "length xs = n \<Longrightarrow> broadcast_to n xs = xs"
  by (cases xs; cases "tl xs") (auto simp: broadcast_to_def)

lemma binom_logpmf_arr_same:
  assumes "length ks = n" "length ns = n" "length ps = n"
  shows "binom_logpmf_arr ks ns ps =
         Inr (map (\<lambda>i. binom_logpmf (ks ! i) (ns ! i) (ps ! i)) [0 ..< n])"
  using assms
  by (auto simp: binom_logpmf_arr_def broadcast_len_same broadcast_to_same intro!: nth_equalityI)

lemma binomial_coef_ok:
  "list_all (\<lambda>(m, t). m \<le> t) xs \<Longrightarrow>
   binomial_coef xs = Inr (sum_list (map (\<lambda>(m, t). ln (real (t choose m))) xs))"
  by (induction xs) (auto simp: log_comb_def)

lemma xlogy_pow: "0 \<le> p \<Longrightarrow> xlogy (real k) p = log_prob (p ^ k)"
  by (cases "k = 0") (auto simp: xlogy_def log_prob_def ln_realpow)

lemma xlog1py_pow: "p \<le> 1 \<Longrightarrow> xlog1py (real j) (- p) = log_prob ((1 - p) ^ j)"
  by (cases "j = 0") (auto simp: xlog1py_def log_prob_def ln_realpow)

lemma log_prob_mult:
  "0 \<le> a \<Longrightarrow> 0 \<le> b \<Longrightarrow> np_add (log_prob a) (log_prob b) = log_prob (a * b)"
  by (auto simp: log_prob_def ln_mult)

lemma binom_logpmf_eq_spec: "binom_logpmf k n p = spec_binom_logpmf k n p"
proof (cases "0 \<le> p \<and> p \<le> 1")
  case False
  then show ?thesis by (auto simp add: binom_logpmf_def spec_binom_logpmf_def)
next
  case p: True
  show ?thesis
  proof (cases "n < k")
    case True
    with p show ?thesis
      by (simp add: binom_logpmf_def spec_binom_logpmf_def binom_pmf_def log_prob_def)
  next
    case False
    then have c: "0 < real (n choose k)" by simp
    have "binom_logpmf k n p =
          np_add (log_prob (real (n choose k)))
            (np_add (log_prob (p ^ k)) (log_prob ((1 - p) ^ (n - k))))"
    proof -
      have "xlogy (real k) p = log_prob (p ^ k)"
        using p by (simp add: xlogy_pow)
      moreover have "xlog1py (real (n - k)) (- p) = log_prob ((1 - p) ^ (n - k))"
        using p by (simp only: xlog1py_pow)
      moreover have "Fin (ln (real (n choose k))) = log_prob (real (n choose k))"
        using c by (simp add: log_prob_def)
      ultimately show ?thesis
        using p False by (simp only: binom_logpmf_def simp_thms if_False)
    qed
    also have "\<dots> = np_add (log_prob (real (n choose k))) (log_prob (p ^ k * (1 - p) ^ (n - k)))"
      using p by (simp add: log_prob_mult)
    also have "\<dots> = log_prob (real (n choose k) * (p ^ k * (1 - p) ^ (n - k)))"
      using p by (intro log_prob_mult) simp_all
    finally show ?thesis using p
      by (simp add: spec_binom_logpmf_def binom_pmf_def mult.assoc)
  qed
qed

lemma row_dot: 
  assumes "length row = n" "length sigma = n"
  shows "sum_list (map2 (*) row sigma) = (\<Sum>j<n. row ! j * sigma ! j)"
proof -
  have "sum_list (map2 (*) row sigma) = (\<Sum>j = 0..<n. map2 (*) row sigma ! j)"
    using assms by (simp add: sum_list_sum_nth)
  also have "\<dots> = (\<Sum>j = 0..<n. row ! j * sigma ! j)"
    using assms by (intro sum.cong) simp_all
  finally show ?thesis by (simp add: atLeast0LessThan)
qed

lemma clip_get_x_nth:
  assumes "wf_atlas atlas" "length sigma = atlas_K atlas" "i < length (atlas_A atlas)"
  shows "np_clip (get_x atlas sigma) ! i = spec_x atlas sigma i"
proof -
  from assms have "length (atlas_A atlas ! i) = atlas_K atlas"
    by (simp add: wf_atlas_def list_all_length)
  with assms show ?thesis
    by (simp add: np_clip_def get_x_def spec_x_def row_dot)
qed

lemma binomial_coef_zip:
  assumes "length ms = n" "length ts = n" "\<forall>i<n. ms ! i \<le> ts ! i"
  shows "binomial_coef (zip ms ts) = Inr (\<Sum>i<n. ln (real (ts ! i choose ms ! i)))"
proof -
  have "list_all (\<lambda>(m, t). m \<le> t) (zip ms ts)"
    using assms by (auto simp: list_all_length)
  then have "binomial_coef (zip ms ts) =
             Inr (sum_list (map (\<lambda>(m, t). ln (real (t choose m))) (zip ms ts)))"
    by (rule binomial_coef_ok)
  also have "sum_list (map (\<lambda>(m, t). ln (real (t choose m))) (zip ms ts)) =
             (\<Sum>i = 0..<n. map (\<lambda>(m, t). ln (real (t choose m))) (zip ms ts) ! i)"
    using assms by (simp add: sum_list_sum_nth)
  also have "\<dots> = (\<Sum>i = 0..<n. ln (real (ts ! i choose ms ! i)))"
    using assms by (intro sum.cong) simp_all
  finally show ?thesis by (simp add: atLeast0LessThan)
qed

lemma example_atlas_eval:
  "example_atlas =
     \<lparr> atlas_cpg_ids = [(''chr1'', 100, 101), (''chr1'', 200, 201), (''chr2'', 300, 301)],
       atlas_K = 2,
       atlas_v = [(''Lung cells'', Values [1, 0, 1/2]),
                  (''Monocytes EPIC'', Values [0, 1, 1/2])],
       atlas_A = [[1, 0], [0, 1], [1/2, 1/2]] \<rparr>"
  by (simp add: example_atlas_def ReferenceAtlas_init_def example_frame_def cell_types_of_def
      df_columns_def df_cols_def list_of_column_def df_len_def Let_def upt_conv_Cons)

lemma one_column_per_label:
  "distinct (map fst xs) \<Longrightarrow> k \<in> fst ` set xs \<Longrightarrow> length (filter (\<lambda>c. fst c = k) xs) = 1"
proof (induction xs)
  case Nil
  then show ?case by simp
next
  case (Cons a xs)
  show ?case
  proof (cases "fst a = k")
    case True
    with Cons.prems have "k \<notin> fst ` set xs" by auto
    then have "filter (\<lambda>c. fst c = k) xs = []"
      by (auto simp: filter_empty_conv image_iff)
    with True show ?thesis by simp
  next
    case False
    with Cons show ?thesis by auto
  qed
qed

lemma length_concat_singletons:
  "(\<And>k. k \<in> set ks \<Longrightarrow> length (f k) = 1) \<Longrightarrow> length (concat (map f ks)) = length ks"
  by (induction ks) simp_all

lemma wf_atlas_init:
  assumes "distinct (map fst (df_data gr))"
  shows "wf_atlas (ReferenceAtlas_init gr)"
proof -
  have "length (df_cols gr k) = 1" if "k \<in> set (cell_types_of gr)" for k
  proof -
    from that have "k \<in> fst ` set (df_data gr)"
      by (auto simp: cell_types_of_def df_columns_def)
    from one_column_per_label [OF assms this] show ?thesis
      by (simp add: df_cols_def)
  qed
  then have "length (concat (map (\<lambda>k. map (\<lambda>c. c ! i) (df_cols gr k)) (cell_types_of gr))) =
             length (cell_types_of gr)" for i
    by (intro length_concat_singletons) simp
  then show ?thesis
    by (simp add: wf_atlas_def ReferenceAtlas_init_def Let_def list_all_iff)
qed

text \<open>
  C10. The perfect-calling log-likelihood does not depend on its two rate arguments:
  any two pairs of rates give the same value (or the same error) for the same atlas,
  mixture vector and sample.
\<close>

theorem perfect_likelihood_ignores_rates:
  "log_likelihood_sequencing_perfect atlas sigma sample p01 p11 =
   log_likelihood_sequencing_perfect atlas sigma sample p01' p11'"
  by (simp add: log_likelihood_sequencing_perfect_def)

text \<open>
  C2. For an atlas whose matrix has \<open>K\<close> columns, a mixture vector of \<open>K\<close> entries and a
  sample with one pair of counts \<open>m[i] \<le> t[i]\<close> per site, and for all rates \<open>p01\<close> and
  \<open>p11\<close>, the sequencing-error log-likelihood returns the sum over the sites of the
  binomial log-pmf of \<open>m[i]\<close> successes in \<open>t[i]\<close> trials with success probability
  \<open>p[i]\<close>, minus the sum of \<open>log C(t[i], m[i])\<close>, where \<open>x = clip(A sigma, 0, 1)\<close> and
  \<open>p[i] = x[i] p11 + (1 - x[i]) p01\<close> when \<open>p11\<close> is nonzero, and
  \<open>p[i] = x[i] (1 - p01) + (1 - x[i]) p01\<close> otherwise.
\<close>

theorem llse_matches_spec_formula:
  assumes "wf_atlas atlas" and "length sigma = atlas_K atlas"
    and "length (sample_m sample) = length (atlas_A atlas)"
    and "length (sample_t sample) = length (atlas_A atlas)"
    and "\<forall>i<length (atlas_A atlas). sample_m sample ! i \<le> sample_t sample ! i"
  shows "log_likelihood_sequencing_with_errors atlas sigma sample p01 p11 =
         Inr (spec_log_likelihood_with_errors atlas sigma sample p01 p11)"
proof -
  let ?n = "length (atlas_A atlas)"
  let ?x = "np_clip (get_x atlas sigma)"
  let ?p = "if p11 \<noteq> 0 then map (\<lambda>xi. xi * p11 + (1 - xi) * p01) ?x
            else map (\<lambda>xi. xi * (1 - p01) + (1 - xi) * p01) ?x"
  have len: "length ?p = ?n" by (simp add: length_np_clip length_get_x)
  have pi: "?p ! i = spec_p atlas sigma p01 p11 i" if "i < ?n" for i
    using that assms(1,2) by (simp add: spec_p_def length_np_clip length_get_x clip_get_x_nth)
  have b: "binom_logpmf_arr (sample_m sample) (sample_t sample) ?p =
           Inr (map (\<lambda>i. spec_binom_logpmf (sample_m sample ! i) (sample_t sample ! i)
                            (spec_p atlas sigma p01 p11 i)) [0 ..< ?n])"
    using binom_logpmf_arr_same [OF assms(3,4) len] pi
    by (simp add: binom_logpmf_eq_spec cong: map_cong)
  have c: "binomial_coef (zip (sample_m sample) (sample_t sample)) =
           Inr (\<Sum>i<?n. ln (real (sample_t sample ! i choose sample_m sample ! i)))"
    using assms(3,4,5) by (rule binomial_coef_zip)
  show ?thesis
    unfolding log_likelihood_sequencing_with_errors_def Let_def
    using assms(2) b c
    by (simp add: reshape_K1_def spec_log_likelihood_with_errors_def)
qed

theorem llse_matches_spec_formula_witness:
  "log_likelihood_sequencing_with_errors example_atlas [9/10, 1/10] example_sample (1/20) (19/20) =
   Inr (spec_log_likelihood_with_errors example_atlas [9/10, 1/10] example_sample (1/20) (19/20))"
  using llse_matches_spec_formula [of example_atlas "[9/10, 1/10]" example_sample "1/20" "19/20"]
  by (simp add: example_atlas_eval example_sample_def Sample_init_def wf_atlas_def
      less_Suc_eq nth_Cons')



subsection \<open>Evaluating the concrete inputs\<close>

lemma example_atlas_init: "ReferenceAtlas_init example_frame = example_atlas"
  by (simp add: example_atlas_def)

lemma example_atlas_columns:
  "atlas_columns \<lparr> j_atlas = example_frame, j_calls = calls \<rparr> = Inr example_frame"
  by (simp add: atlas_columns_def example_frame_def df_len_def)

lemma example_make_sample: 
  "make_sample ''methylome'' [(10, 9), (10, 1), (10, 5)] = example_sample"
  by (simp add: make_sample_def example_sample_def np_true_divide_def)

lemma example_K: "atlas_K example_atlas = 2"
  by (simp add: example_atlas_eval)

lemma example_fit_nnls:
  "fit_nnls example_solvers example_atlas example_sample = Inr [Fin (9/10), Fin (1/10)]"
  by (simp add: fit_nnls_def example_solvers_def example_nnls_def example_atlas_eval
      example_sample_def Sample_init_def divide_by_sum_def np_true_divide_def numeral_2_eq_2)

lemma example_llse_objective:
  "log_likelihood_sequencing_with_errors example_atlas [1/2, 1/2] example_sample (1/20) (19/20) =
   Inr (Fin (30 * ln (1/2)))"
  by (simp add: log_likelihood_sequencing_with_errors_def example_atlas_eval example_sample_def
      Sample_init_def reshape_K1_def get_x_def np_clip_def binom_logpmf_arr_def broadcast_len_def
      broadcast_to_def binom_logpmf_def xlogy_def xlog1py_def np_sum_def np_sub_def log_comb_def)

lemma example_llse_call:
  "example_minimize
     \<lparr> arg_fun = (\<lambda>x. case log_likelihood_sequencing_with_errors example_atlas x example_sample
                               (1/20) (19/20) of
                          Inl e \<Rightarrow> Inl e | Inr v \<Rightarrow> Inr (np_neg v)),
       arg_x0 = [1/2, 1/2], arg_method = ''SLSQP'', arg_maxiter = 100, arg_disp = False,
       arg_bounds = [(0, 1), (0, 1)],
       arg_constraints = [(''eq'', eq_constraint)] \<rparr> =
   Inr \<lparr> res_x = [1/2, 1/2], res_fun = Fin (- (30 * ln (1/2))) \<rparr>"
  by (simp add: example_minimize_def feasible_def eq_constraint_def example_llse_objective)

lemma dark_atlas_eval:
  "dark_atlas = \<lparr> atlas_cpg_ids = [(''chr1'', 100, 101)], atlas_K = 1,
                  atlas_v = [(''Lung cells'', Values [0])], atlas_A = [[0]] \<rparr>"
  by (simp add: dark_atlas_def ReferenceAtlas_init_def dark_frame_def cell_types_of_def
      df_columns_def df_cols_def list_of_column_def df_len_def Let_def)

lemma dark_K: "atlas_K dark_atlas = 1"
  by (simp add: dark_atlas_eval)

lemma lit_sample_eval:
  "lit_sample = \<lparr> sample_name = ''methylome'', sample_x_hat = [Fin 1],
                  sample_m = [1], sample_t = [1] \<rparr>"
  by (simp add: lit_sample_def make_sample_def Sample_init_def np_true_divide_def Let_def)

lemma dark_objective:
  "neg_objective (\<lambda>x. log_likelihood_sequencing_perfect dark_atlas x lit_sample p01 p11) [1] =
   Inr PInf"
  by (simp add: neg_objective_def log_likelihood_sequencing_perfect_def dark_atlas_eval
      lit_sample_eval reshape_K1_def get_x_def np_clip_def binom_logpmf_arr_def
      broadcast_len_def broadcast_to_def binom_logpmf_def xlogy_def xlog1py_def np_sum_def)

lemma dark_llse_call:
  "example_minimize
     \<lparr> arg_fun = (\<lambda>x. case log_likelihood_sequencing_with_errors dark_atlas x lit_sample 0 1 of
                          Inl e \<Rightarrow> Inl e | Inr v \<Rightarrow> Inr (np_neg v)),
       arg_x0 = [1], arg_method = ''SLSQP'', arg_maxiter = 100, arg_disp = False,
       arg_bounds = [(0, 1)],
       arg_constraints = [(''eq'', eq_constraint)] \<rparr> =
   Inr \<lparr> res_x = [1], res_fun = PInf \<rparr>"
  by (simp add: example_minimize_def feasible_def eq_constraint_def
      log_likelihood_sequencing_with_errors_def dark_atlas_eval
      lit_sample_eval reshape_K1_def get_x_def np_clip_def binom_logpmf_arr_def
      broadcast_len_def broadcast_to_def binom_logpmf_def xlogy_def xlog1py_def np_sum_def
      np_sub_def log_comb_def)

subsection \<open>Properties of the atlas and the sample\<close>

lemma np_true_divide_scale:
  "0 < c \<Longrightarrow> np_true_divide (c * a) (c * b) = np_true_divide a b"
  by (simp add: np_true_divide_def zero_less_mult_iff)

lemma x_hat_scale:
  "0 < c \<Longrightarrow>
   sample_x_hat (make_sample name (map (\<lambda>(t, m). (c * t, c * m)) calls)) =
   sample_x_hat (make_sample name calls)"
  by (induction calls)
     (auto simp: make_sample_def Sample_init_def Let_def np_true_divide_scale)

lemma x_hat_nth:
  assumes "i < length calls"
  shows "sample_x_hat (make_sample name calls) ! i =
         np_true_divide (real (snd (calls ! i))) (real (fst (calls ! i)))"
  using assms by (simp add: make_sample_def Sample_init_def Let_def)

lemma cell_type_column:
  assumes "k \<in> set (cell_types_of gr)" "c \<in> set (df_cols gr k)"
  shows "(k, c) \<in> set (df_data gr) \<and> k \<noteq> ''type''"
  using assms by (auto simp: cell_types_of_def df_cols_def)

lemma atlas_in_range_init:
  assumes "valid_joined j"
  shows "1 \<le> atlas_K (ReferenceAtlas_init (j_atlas j)) \<and>
         list_all (list_all (\<lambda>a. 0 \<le> a \<and> a \<le> 1)) (atlas_A (ReferenceAtlas_init (j_atlas j)))"
proof -
  let ?gr = "j_atlas j"
  have k: "1 \<le> atlas_K (ReferenceAtlas_init ?gr)"
    using assms by (cases "cell_types_of ?gr") (simp_all add: valid_joined_def ReferenceAtlas_init_def Let_def)
  have "0 \<le> c ! i \<and> c ! i \<le> 1"
    if "k \<in> set (cell_types_of ?gr)" "c \<in> set (df_cols ?gr k)" "i < df_len ?gr" for k c i
  proof -
    from cell_type_column [OF that(1,2)] have
      c: "(k, c) \<in> set (df_data ?gr)" "k \<noteq> ''type''" by simp_all
    with assms have "length c = df_len ?gr" "list_all (\<lambda>a. 0 \<le> a \<and> a \<le> 1) c"
      by (auto simp: valid_joined_def wf_frame_def list_all_iff)
    with that(3) show ?thesis by (simp add: list_all_length)
  qed
  then have "list_all (list_all (\<lambda>a. 0 \<le> a \<and> a \<le> 1)) (atlas_A (ReferenceAtlas_init ?gr))"
    by (auto simp: ReferenceAtlas_init_def Let_def list_all_iff)
  with k show ?thesis by simp
qed

lemma valid_atlas_init:
  assumes "valid_joined j" "distinct (map fst (df_data (j_atlas j)))"
  shows "valid_atlas (ReferenceAtlas_init (j_atlas j))"
  using atlas_in_range_init [OF assms(1)] wf_atlas_init [OF assms(2)]
  by (simp add: valid_atlas_def)

lemma valid_sample_make:
  assumes "list_all (\<lambda>(t, m). 0 < t \<and> m \<le> t) calls"
  shows "valid_sample (length calls) (make_sample name calls)"
  using assms
  by (induction calls)
     (auto simp: valid_sample_def make_sample_def Sample_init_def Let_def np_true_divide_def)

lemma example_joined_valid:
  "valid_joined (join example_io a s)"
  by (simp add: valid_joined_def example_io_def example_frame_def wf_frame_def df_len_def
      cell_types_of_def df_columns_def)

lemma count_one_label:
  "distinct ks \<Longrightarrow>
   sum_list (map (\<lambda>k. if a = k then 1 else 0) ks) = (if a \<in> set ks then 1 else (0::nat))"
  by (induction ks) auto

lemma count_by_label:
  "sum_list (map (\<lambda>k. length (filter (\<lambda>c. fst c = k) xs)) (remdups ks)) =
   length (filter (\<lambda>c. fst c \<in> set ks) xs)"
proof (induction xs)
  case Nil
  then show ?case by simp
next
  case (Cons c xs)
  have "sum_list (map (\<lambda>k. length (filter (\<lambda>c. fst c = k) (c # xs))) (remdups ks)) =
        sum_list (map (\<lambda>k. (if fst c = k then 1 else 0) +
                               length (filter (\<lambda>c. fst c = k) xs)) (remdups ks))"
    by (intro arg_cong [where f = sum_list] map_cong) simp_all
  also have "\<dots> = (if fst c \<in> set ks then 1 else 0) +
                   length (filter (\<lambda>c. fst c \<in> set ks) xs)"
    using count_one_label [of "remdups ks" "fst c"] Cons.IH by (simp add: sum_list_addf)
  finally show ?case by simp
qed

lemma atlas_row_length:
  "length (concat (map (\<lambda>k. map g (df_cols gr k)) (cell_types_of gr))) =
   length (filter (\<lambda>c. fst c \<notin> {''Chromosome'', ''Start'', ''End'', ''type''}) (df_data gr))"
proof -
  let ?ks = "filter (\<lambda>c. c \<notin> {''Chromosome'', ''Start'', ''End'', ''type''}) (df_columns gr)"
  have "length (concat (map (\<lambda>k. map g (df_cols gr k)) (cell_types_of gr))) =
        sum_list (map (\<lambda>k. length (filter (\<lambda>c. fst c = k) (df_data gr))) (remdups ?ks))"
    by (simp add: length_concat cell_types_of_def df_cols_def comp_def)
  also have "\<dots> = length (filter (\<lambda>c. fst c \<in> set ?ks) (df_data gr))"
    by (rule count_by_label)
  also have "filter (\<lambda>c. fst c \<in> set ?ks) (df_data gr) =
             filter (\<lambda>c. fst c \<notin> {''Chromosome'', ''Start'', ''End'', ''type''}) (df_data gr)"
    by (intro filter_cong) (auto simp: df_columns_def)
  finally show ?thesis .
qed

text \<open>
  C9 (as amended). Constructing a \<open>ReferenceAtlas\<close> never rejects its input: \<open>K\<close> is the
  number of distinct column labels other than Chromosome, Start, End and type, which is 0
  when none remains; \<open>A\<close> has \<open>N\<close> rows, each with one entry per column that carries
  such a label, so that \<open>A\<close> is a matrix of \<open>N\<close> rows and \<open>K\<close> columns when no two
  columns carry the same label.
\<close>

theorem atlas_construction_total:
  "atlas_K (ReferenceAtlas_init gr) =
     card (set (df_columns gr) - {''Chromosome'', ''Start'', ''End'', ''type''}) \<and>
   length (atlas_A (ReferenceAtlas_init gr)) = df_len gr \<and>
   list_all
     (\<lambda>row. length row =
        length (filter (\<lambda>c. fst c \<notin> {''Chromosome'', ''Start'', ''End'', ''type''}) (df_data gr)))
     (atlas_A (ReferenceAtlas_init gr)) \<and>
   (distinct (map fst (df_data gr)) \<longrightarrow> wf_atlas (ReferenceAtlas_init gr))"
proof -
  have "set (cell_types_of gr) =
        set (df_columns gr) - {''Chromosome'', ''Start'', ''End'', ''type''}"
    by (auto simp: cell_types_of_def)
  then have "atlas_K (ReferenceAtlas_init gr) =
     card (set (df_columns gr) - {''Chromosome'', ''Start'', ''End'', ''type''})"
    by (simp add: ReferenceAtlas_init_def Let_def cell_types_of_def length_remdups_card_conv)
  moreover have "length (atlas_A (ReferenceAtlas_init gr)) = df_len gr"
    by (simp add: ReferenceAtlas_init_def Let_def)
  moreover have "list_all
     (\<lambda>row. length row =
        length (filter (\<lambda>c. fst c \<notin> {''Chromosome'', ''Start'', ''End'', ''type''}) (df_data gr)))
     (atlas_A (ReferenceAtlas_init gr))"
    by (simp add: ReferenceAtlas_init_def Let_def list_all_iff atlas_row_length)
  ultimately show ?thesis by (simp add: wf_atlas_init)
qed

theorem atlas_construction_total_witness:
  "atlas_K (ReferenceAtlas_init example_frame) = 2 \<and>
   atlas_A (ReferenceAtlas_init example_frame) = [[1, 0], [0, 1], [1/2, 1/2]] \<and>
   wf_atlas (ReferenceAtlas_init example_frame)"
  using atlas_construction_total [of example_frame] example_atlas_eval
  by (simp add: example_atlas_def example_frame_def)

text \<open>
  With two columns of one label, \<open>K\<close> counts the label once and \<open>A\<close> has both columns.
\<close>

lemma repeated_label_example:
  "atlas_K (ReferenceAtlas_init twin_frame) = 1 \<and>
   atlas_A (ReferenceAtlas_init twin_frame) = [[1, 0], [0, 1]] \<and>
   atlas_v (ReferenceAtlas_init twin_frame) =
     [(''Lung cells'', Labels [''Lung cells'', ''Lung cells''])]"
  by (simp add: ReferenceAtlas_init_def twin_frame_def cell_types_of_def df_columns_def
      df_cols_def list_of_column_def df_len_def upt_conv_Cons)

text \<open>
  As the specification states it (a table without cell-type columns is rejected), the
  property fails: a table whose only further column is \<open>type\<close> gives an atlas with
  \<open>K = 0\<close> and rows without entries, and no error.
\<close>

theorem no_cell_types_counterexample:
  "atlas_K (ReferenceAtlas_init bare_frame) = 0 \<and>
   atlas_A (ReferenceAtlas_init bare_frame) = [[], []] \<and>
   atlas_cpg_ids (ReferenceAtlas_init bare_frame) = [(''chr1'', 100, 101), (''chr1'', 200, 201)]"
  by (simp add: ReferenceAtlas_init_def bare_frame_def cell_types_of_def df_columns_def
      df_cols_def df_len_def upt_conv_Cons)

text \<open>
  C8 (as amended). \<open>x_hat[i]\<close> is \<open>m[i] / t[i]\<close> at every site with \<open>t[i] > 0\<close>; at a site
  with \<open>t[i] = 0\<close> nothing is raised, and \<open>x_hat[i]\<close> is \<open>nan\<close> when \<open>m[i] = 0\<close> and
  \<open>inf\<close> otherwise.
\<close>

theorem x_hat_division_never_raises:
  assumes "i < length calls" and "calls ! i = (t, m)"
  shows "sample_x_hat (make_sample name calls) ! i =
         (if 0 < t then Fin (real m / real t) else if m = 0 then NaN else PInf)"
  using assms by (simp add: x_hat_nth np_true_divide_def)

theorem x_hat_division_never_raises_witness:
  "sample_x_hat (make_sample ''methylome'' [(0, 0), (10, 1)]) ! 0 = NaN \<and>
   sample_x_hat (make_sample ''methylome'' [(0, 0), (10, 1)]) ! 1 = Fin (1/10)"
  using x_hat_division_never_raises [of 0 "[(0, 0), (10, 1)]" 0 0 "''methylome''"]
    x_hat_division_never_raises [of 1 "[(0, 0), (10, 1)]" 10 1 "''methylome''"]
  by simp

text \<open>
  As the specification states it (a site with \<open>t = 0\<close> makes the construction fail),
  the property fails: with a site without calls in the joined table, \<open>fit_model\<close>
  returns a mixture vector, and the sample's \<open>x_hat\<close> holds a \<open>nan\<close>.
\<close>

theorem zero_total_calls_counterexample:
  "fit_model zero_calls_io example_solvers ''sample.tsv'' ''atlas.tsv'' ''null'' (1/20) (19/20) =
     (Inr [Fin (1/2), Fin (1/2)], [''atlas.tsv'', ''sample.tsv'']) \<and>
   sample_x_hat (make_sample ''methylome'' [(0, 0), (10, 1), (10, 5)]) =
     [NaN, Fin (1/10), Fin (1/2)]"
  by (simp add: fit_model_def zero_calls_io_def example_io_def example_atlas_columns select_model_def
      example_atlas_init example_atlas_eval fit_uniform_def uniform_vector_def
      make_sample_def Sample_init_def np_true_divide_def numeral_2_eq_2)

subsection \<open>The least-squares driver\<close>

text \<open>
  C4. Multiplying every \<open>t\<close> and \<open>m\<close> of a sample by the same positive constant does not
  change what the least-squares driver returns: \<open>x_hat\<close> is unchanged, and the driver
  reads nothing else of the sample.
\<close>

theorem nnls_invariant_under_rescaling:
  "0 < c \<Longrightarrow>
   fit_nnls sv atlas (make_sample name (map (\<lambda>(t, m). (c * t, c * m)) calls)) =
   fit_nnls sv atlas (make_sample name calls)"
  by (simp add: fit_nnls_def x_hat_scale)

theorem nnls_invariant_under_rescaling_witness:
  "fit_nnls example_solvers example_atlas
     (make_sample ''methylome'' [(50, 45), (50, 5), (50, 25)]) =
   fit_nnls example_solvers example_atlas
     (make_sample ''methylome'' [(10, 9), (10, 1), (10, 5)])"
  using nnls_invariant_under_rescaling
    [of 5 example_solvers example_atlas "''methylome''" "[(10, 9), (10, 1), (10, 5)]"]
  by simp

text \<open>
  The solution of a solver that keeps its contract cannot be the zero vector on valid
  data: the appended row of ones and the appended 1 make a small step along the first
  coordinate reduce the residual.
\<close>

lemma dot_zeros: "sum_list (map2 (*) row (replicate n (0::real))) = 0"
proof (induction row arbitrary: n)
  case Nil
  then show ?case by simp
next
  case (Cons a row)
  then show ?case by (cases n) simp_all
qed

lemma dot_first: "sum_list (map2 (*) (a # row) (c # replicate n (0::real))) = a * c"
  by (simp add: dot_zeros)

lemma residual_zeros:
  "residual A (replicate n 0) b = (\<Sum>(row, bi)\<leftarrow>zip A b. bi\<^sup>2)"
  by (simp add: residual_def dot_zeros)

lemma residual_first:
  assumes "list_all (\<lambda>row. row \<noteq> []) A"
  shows "residual A (c # replicate n 0) b = (\<Sum>(row, bi)\<leftarrow>zip A b. (hd row * c - bi)\<^sup>2)"
proof -
  have "(\<lambda>(row, bi). (sum_list (map2 (*) row (c # replicate n 0)) - bi)\<^sup>2) p =
        (\<lambda>(row, bi). (hd row * c - bi)\<^sup>2) p" if "p \<in> set (zip A b)" for p
  proof -
    obtain row bi where p: "p = (row, bi)" by (cases p)
    with that have "row \<in> set A" by (auto dest: set_zip_leftD)
    with assms obtain a rest where "row = a # rest"
      by (cases row) (auto simp: list_all_iff)
    then show ?thesis by (simp add: p dot_zeros)
  qed
  then show ?thesis unfolding residual_def by (intro arg_cong [where f = sum_list] map_cong) auto
qed

lemma square_expand:
  "(\<Sum>(row, bi)\<leftarrow>ps. (hd row * c - bi)\<^sup>2) =
   c\<^sup>2 * (\<Sum>(row, bi)\<leftarrow>ps. (hd row)\<^sup>2) - 2 * c * (\<Sum>(row, bi)\<leftarrow>ps. hd row * bi)
     + (\<Sum>(row, bi)\<leftarrow>ps. bi\<^sup>2)" for c :: real
  by (induction ps) (auto simp: power2_eq_square algebra_simps)

lemma sum_list_nonneg_case:
  "list_all (\<lambda>(row, bi). 0 \<le> f row bi) ps \<Longrightarrow> 0 \<le> (\<Sum>(row, bi)\<leftarrow>ps. (f row bi :: real))"
  by (induction ps) auto

lemma nonneg_sum_zero:
  assumes "list_all (\<lambda>a. 0 \<le> a) x" "sum_list x \<le> (0::real)"
  shows "x = replicate (length x) 0"
  using assms
proof (induction x)
  case Nil
  then show ?case by simp
next
  case (Cons a x)
  then have "0 \<le> a" "list_all (\<lambda>a. 0 \<le> a) x" by simp_all
  moreover from this have "0 \<le> sum_list x" by (simp add: sum_list_nonneg list_all_iff)
  ultimately have "a = 0" "sum_list x \<le> 0" using Cons.prems(2) by simp_all
  with Cons.IH \<open>list_all (\<lambda>a. 0 \<le> a) x\<close> show ?case by simp
qed

lemma residual_nonneg: "0 \<le> residual A y b"
  unfolding residual_def by (intro sum_list_nonneg) auto

lemma nnls_solution_positive_sum:
  assumes contract: "nnls_contract nnls"
    and k: "0 < k"
    and nonneg_rows: "list_all (list_all (\<lambda>a. 0 \<le> a)) A"
    and h: "length h = length A" "list_all (\<lambda>a. 0 \<le> a) h"
    and res: "nnls (A @ [replicate k 1]) (map Fin h @ [Fin 1]) = Inr (x, r)"
  shows "list_all (\<lambda>a. 0 \<le> a) x \<and> 0 < sum_list x"
proof -
  let ?A = "A @ [replicate k 1]" and ?b = "h @ [1]"
  from res have res': "nnls ?A (map Fin ?b) = Inr (x, r)" by simp
  from contract res' have len: "list_all (\<lambda>row. length row = length x) ?A"
    and nonneg: "list_all (\<lambda>a. 0 \<le> a) x"
    and opt: "\<And>y. length y = length x \<Longrightarrow> list_all (\<lambda>a. 0 \<le> a) y \<Longrightarrow>
               residual ?A x ?b \<le> residual ?A y ?b"
    unfolding nnls_contract_def by blast+
  from len have lx: "length x = k" by simp
  from len lx nonneg_rows
  have rows: "list_all (\<lambda>row. length row = k \<and> list_all (\<lambda>a. 0 \<le> a) row) A"
    by (simp add: list_all_iff)
  have "0 < sum_list x"
  proof (rule ccontr)
    assume "\<not> 0 < sum_list x"
    then have x0: "x = replicate k 0" using nonneg_sum_zero [OF nonneg] lx by simp
    let ?ps = "zip ?A ?b"
    let ?Q = "\<Sum>(row, bi)\<leftarrow>?ps. (hd row)\<^sup>2"
    let ?P = "\<Sum>(row, bi)\<leftarrow>?ps. hd row * bi"
    let ?S = "\<Sum>(row, bi)\<leftarrow>?ps. bi\<^sup>2"
    have ps: "?ps = zip A h @ [(replicate k 1, 1)]" using h(1) by simp
    have hd1: "hd (replicate k (1::real)) = 1" using k by (cases k) simp_all
    have "0 \<le> (\<Sum>(row, bi)\<leftarrow>zip A h. (hd row)\<^sup>2)"
      by (intro sum_list_nonneg_case) (simp add: list_all_iff split_beta)
    then have Q: "1 \<le> ?Q" unfolding ps by (simp add: hd1)
    have "list_all (\<lambda>(row, bi). 0 \<le> hd row * bi) (zip A h)"
    proof -
      have "0 \<le> hd row * bi" if "(row, bi) \<in> set (zip A h)" for row bi
      proof -
        from that have "row \<in> set A" "bi \<in> set h" by (auto dest: set_zip_leftD set_zip_rightD)
        with rows h(2) k have "0 \<le> hd row" "0 \<le> bi"
          by (cases row; auto simp: list_all_iff)+
        then show ?thesis by simp
      qed
      then show ?thesis by (auto simp: list_all_iff)
    qed
    then have "0 \<le> (\<Sum>(row, bi)\<leftarrow>zip A h. hd row * bi)" by (rule sum_list_nonneg_case)
    then have P: "1 \<le> ?P" unfolding ps by (simp add: hd1)
    define c where "c = 1 / ?Q"
    have c: "0 < c" using Q by (simp add: c_def)
    obtain k' where k': "k = Suc k'" using k by (cases k) simp_all
    let ?y = "c # replicate k' 0"
    have ne: "list_all (\<lambda>row. row \<noteq> []) ?A"
      using rows k by (auto simp: list_all_iff)
    have "residual ?A ?y ?b = c\<^sup>2 * ?Q - 2 * c * ?P + ?S"
      by (simp only: residual_first [OF ne] square_expand)
    also have "c\<^sup>2 * ?Q = c" using Q by (simp add: c_def power2_eq_square)
    also have "c - 2 * c * ?P + ?S < ?S"
    proof -
      have "c * 1 \<le> c * ?P" using c P by (intro mult_left_mono) simp_all
      then show ?thesis using c by simp
    qed
    finally have "residual ?A ?y ?b < ?S" .
    moreover have "residual ?A x ?b = ?S" unfolding x0 by (rule residual_zeros)
    moreover have "residual ?A x ?b \<le> residual ?A ?y ?b"
      using c by (intro opt) (simp_all add: lx k' list_all_iff)
    ultimately show False by simp
  qed
  with nonneg show ?thesis by simp
qed

lemma example_nnls_contract: "nnls_contract example_nnls"
proof -
  have "residual [[1, 0], [0, 1], [1/2, 1/2], [1, 1]] [9/10, 1/10] [9/10, 1/10, 1/2, 1] = 0"
    by (simp add: residual_def)
  then show ?thesis
    unfolding nnls_contract_def example_nnls_def
    by (auto simp: residual_nonneg split: if_splits)
qed

subsection \<open>The multi-start drivers\<close>

lemma np_lt_not_nan: "np_lt a b \<Longrightarrow> a \<noteq> NaN \<and> b \<noteq> NaN"
  by (cases a; cases b) simp_all

lemma np_le_refl: "a \<noteq> NaN \<Longrightarrow> np_le a a"
  by (cases a) simp_all

lemma np_lt_le_trans: "np_lt a b \<Longrightarrow> np_le b c \<Longrightarrow> np_le a c"
  by (cases a; cases b; cases c) simp_all

lemma np_not_lt_le: "\<not> np_lt a b \<Longrightarrow> a \<noteq> NaN \<Longrightarrow> b \<noteq> NaN \<Longrightarrow> np_le b a"
  by (cases a; cases b) simp_all

lemma np_lt_not_le: "np_lt a b \<Longrightarrow> \<not> np_le b a"
  by (cases a; cases b) simp_all

lemma trial_loop_fold:
  "list_all2 (\<lambda>init res. sv_minimize sv (call init) = Inr res) inits trials \<Longrightarrow>
   trial_loop sv call inits st = Inr (foldl keep_better st trials)"
proof (induction inits arbitrary: trials st)
  case Nil
  then show ?case by simp
next
  case (Cons init rest)
  then obtain res more where t: "trials = res # more"
    and r: "sv_minimize sv (call init) = Inr res"
    and m: "list_all2 (\<lambda>init res. sv_minimize sv (call init) = Inr res) rest more"
    by (auto simp: list_all2_Cons1)
  obtain bl bs where st: "st = (bl, bs)" by (cases st)
  show ?case
    using Cons.IH [OF m] r by (simp add: t st keep_better_def Let_def)
qed

lemma best_so_far_step:
  assumes "best_so_far seen st"
  shows "best_so_far (seen @ [r]) (keep_better st r)"
proof (cases "np_lt (res_fun r) (fst st)")
  case True
  have "np_le (res_fun r) (res_fun q)" if "q \<in> set seen" "res_fun q \<noteq> NaN" for q
    using assms that True by (auto simp: best_so_far_def intro: np_lt_le_trans)
  moreover have "np_lt (res_fun r) PInf"
    using True by (cases "res_fun r"; cases "fst st") simp_all
  ultimately show ?thesis
    using True np_lt_not_nan [OF True] by (auto simp: best_so_far_def keep_better_def np_le_refl)
next
  case False
  have "np_le (fst st) (res_fun r)" if "res_fun r \<noteq> NaN"
    using assms that False by (auto simp: best_so_far_def intro: np_not_lt_le)
  then show ?thesis
    using False assms by (auto simp: best_so_far_def keep_better_def split: option.splits)
qed

lemma best_so_far_fold:
  "best_so_far seen st \<Longrightarrow> best_so_far (seen @ trials) (foldl keep_better st trials)"
proof (induction trials arbitrary: seen st)
  case Nil
  then show ?case by simp
next
  case (Cons r trials)
  from Cons.IH [OF best_so_far_step [OF Cons.prems, of r]] show ?case by simp
qed

lemma best_of_all_trials: "best_so_far trials (foldl keep_better (PInf, None) trials)"
  using best_so_far_fold [of "[]" "(PInf, None)" trials] by (simp add: best_so_far_def)

lemma multi_start_fold:
  assumes "0 < atlas_K atlas"
    and "sv_rvs sv (replicate (atlas_K atlas) (1 / real (atlas_K atlas))) 10 = Inr inits"
    and "list_all2 (\<lambda>init res. sv_minimize sv (slsqp_call f atlas init) = Inr res) inits trials"
  shows "multi_start sv f atlas = return_best (snd (foldl keep_better (PInf, None) trials))"
  using assms(1,2) trial_loop_fold [OF assms(3), of "(PInf, None)"]
  by (simp add: multi_start_def uniform_vector_def Let_def split: prod.splits)

lemma multi_start_some:
  assumes "0 < atlas_K atlas"
    and "sv_rvs sv (replicate (atlas_K atlas) (1 / real (atlas_K atlas))) 10 = Inr inits"
    and "list_all2 (\<lambda>init res. sv_minimize sv (slsqp_call f atlas init) = Inr res) inits trials"
    and "\<exists>r\<in>set trials. np_lt (res_fun r) PInf"
  shows "\<exists>best\<in>set trials. multi_start sv f atlas = Inr (divide_by_sum (res_x best)) \<and>
           (\<forall>r\<in>set trials. res_fun r \<noteq> NaN \<longrightarrow> np_le (res_fun best) (res_fun r))"
proof -
  let ?st = "foldl keep_better (PInf, None) trials"
  have inv: "best_so_far trials ?st" by (rule best_of_all_trials)
  from assms(4) obtain r where r: "r \<in> set trials" "np_lt (res_fun r) PInf" by blast
  have "snd ?st \<noteq> None"
  proof
    assume "snd ?st = None"
    with inv have "fst ?st = PInf" by (simp add: best_so_far_def)
    moreover from inv r np_lt_not_nan [OF r(2)] have "np_le (fst ?st) (res_fun r)"
      by (simp add: best_so_far_def)
    ultimately show False using np_lt_not_le [OF r(2)] by simp
  qed
  then obtain b where b: "snd ?st = Some b" by blast
  with inv have "b \<in> set trials" "res_fun b = fst ?st"
    "\<forall>r\<in>set trials. res_fun r \<noteq> NaN \<longrightarrow> np_le (fst ?st) (res_fun r)"
    by (simp_all add: best_so_far_def)
  moreover have "multi_start sv f atlas = Inr (divide_by_sum (res_x b))"
    using multi_start_fold [OF assms(1,2,3)] b by (simp add: return_best_def)
  ultimately show ?thesis by auto
qed

lemma multi_start_none:
  assumes "0 < atlas_K atlas"
    and "sv_rvs sv (replicate (atlas_K atlas) (1 / real (atlas_K atlas))) 10 = Inr inits"
    and "list_all2 (\<lambda>init res. sv_minimize sv (slsqp_call f atlas init) = Inr res) inits trials"
    and "\<forall>r\<in>set trials. \<not> np_lt (res_fun r) PInf"
  shows "multi_start sv f atlas = Inl AttributeError"
proof -
  let ?st = "foldl keep_better (PInf, None) trials"
  have inv: "best_so_far trials ?st" by (rule best_of_all_trials)
  have "snd ?st = None"
  proof (cases "snd ?st")
    case None
    then show ?thesis .
  next
    case (Some b)
    with inv have "b \<in> set trials" "np_lt (res_fun b) PInf" by (simp_all add: best_so_far_def)
    with assms(4) show ?thesis by blast
  qed
  then show ?thesis
    using multi_start_fold [OF assms(1,2,3)] by (simp add: return_best_def)
qed

lemma script_multi_start:
  "script_fit_llse sv atlas sample p01 p11 True = fit_llse sv atlas sample p01 p11"
  "script_fit_llsp sv atlas sample p01 p11 True = fit_llsp sv atlas sample p01 p11"
  by (simp_all add: script_fit_llse_def script_fit_llsp_def fit_llse_def fit_llsp_def)

text \<open>
  C3. In multi-start mode the drivers \<open>llse\<close> and \<open>llsp\<close> ask the sampler for 10 vectors
  with concentration \<open>1/K\<close> per coordinate, and run the minimizer from each with the
  negative log-likelihood as objective, method SLSQP, at most 100 iterations, the bounds
  \<open>(0, 1)\<close> on each coordinate and the equality constraint \<open>1 - sum = 0\<close>. When the
  sampler returns 10 vectors, the 10 runs return, and at least one objective is below
  \<open>inf\<close>, the driver returns the normalized solution of a trial whose objective is less
  than or equal to the objective of every trial (every trial whose objective is a number:
  no order relation holds with \<open>nan\<close>).
\<close>

theorem multi_start_returns_best_trial:
  assumes "(fit, loglik) = (fit_llse, log_likelihood_sequencing_with_errors) \<or>
           (fit, loglik) = (fit_llsp, log_likelihood_sequencing_perfect) \<or>
           (fit, loglik) = (\<lambda>sv a s p q. script_fit_llse sv a s p q True,
                            log_likelihood_sequencing_with_errors) \<or>
           (fit, loglik) = (\<lambda>sv a s p q. script_fit_llsp sv a s p q True,
                            log_likelihood_sequencing_perfect)"
    and "0 < atlas_K atlas"
    and "sv_rvs sv (replicate (atlas_K atlas) (1 / real (atlas_K atlas))) 10 = Inr inits"
    and "length inits = 10"
    and "list_all2
           (\<lambda>init res.
              sv_minimize sv
                \<lparr> arg_fun = (\<lambda>x. case loglik atlas x sample p01 p11 of
                                     Inl e \<Rightarrow> Inl e | Inr v \<Rightarrow> Inr (np_neg v)),
                  arg_x0 = init, arg_method = ''SLSQP'', arg_maxiter = 100, arg_disp = False,
                  arg_bounds = replicate (atlas_K atlas) (0, 1),
                  arg_constraints = [(''eq'', eq_constraint)] \<rparr> = Inr res)
           inits trials"
    and "\<exists>r\<in>set trials. np_lt (res_fun r) PInf"
  shows "length trials = 10 \<and>
         (\<exists>best\<in>set trials.
            fit sv atlas sample p01 p11 = Inr (divide_by_sum (res_x best)) \<and>
            (\<forall>r\<in>set trials. res_fun r \<noteq> NaN \<longrightarrow> np_le (res_fun best) (res_fun r)))"
proof -
  let ?f = "neg_objective (\<lambda>x. loglik atlas x sample p01 p11)"
  have f: "?f = (\<lambda>x. case loglik atlas x sample p01 p11 of
                        Inl e \<Rightarrow> Inl e | Inr v \<Rightarrow> Inr (np_neg v))"
    by (rule ext) (simp add: neg_objective_def)
  have runs: "list_all2 (\<lambda>init res. sv_minimize sv (slsqp_call ?f atlas init) = Inr res) inits trials"
    using assms(5) by (simp add: slsqp_call_def f)
  have fit: "fit sv atlas sample p01 p11 = multi_start sv ?f atlas"
    using assms(1) by (auto simp: fit_llse_def fit_llsp_def script_multi_start)
  have "length trials = 10"
    using assms(4,5) by (auto dest: list_all2_lengthD)
  with multi_start_some [OF assms(2,3) runs assms(6)] show ?thesis
    by (simp add: fit)
qed

theorem multi_start_returns_best_trial_witness:
  "fit_llse example_solvers example_atlas example_sample (1/20) (19/20) =
     Inr [Fin (1/2), Fin (1/2)] \<and>
   fit_llsp canned_solvers example_atlas example_sample 0 1 = Inr [Fin (3/10), Fin (7/10)]"
proof
  let ?t = "\<lparr> res_x = [1/2, 1/2], res_fun = Fin (- (30 * ln (1/2))) \<rparr>"
  have "length (replicate 10 ?t) = 10 \<and>
        (\<exists>best\<in>set (replicate 10 ?t).
           fit_llse example_solvers example_atlas example_sample (1/20) (19/20) =
             Inr (divide_by_sum (res_x best)) \<and>
           (\<forall>r\<in>set (replicate 10 ?t). res_fun r \<noteq> NaN \<longrightarrow> np_le (res_fun best) (res_fun r)))"
    by (rule multi_start_returns_best_trial
          [where loglik = log_likelihood_sequencing_with_errors
             and inits = "replicate 10 [1/2, 1/2]"])
       (simp_all add: example_K example_solvers_def example_rvs_def example_llse_call
          list_all2_conv_all_nth numeral_2_eq_2)
  then show "fit_llse example_solvers example_atlas example_sample (1/20) (19/20) =
     Inr [Fin (1/2), Fin (1/2)]"
    by (simp add: divide_by_sum_def np_true_divide_def)
next
  let ?inits = "map (\<lambda>i. [1 - real i / 10, real i / 10]) [0 ..< 10]"
  let ?trials = "map (\<lambda>init. \<lparr> res_x = init, res_fun = Fin ((hd init - 3/10)\<^sup>2) \<rparr>) ?inits"
  have "length ?trials = 10 \<and>
        (\<exists>best\<in>set ?trials.
           fit_llsp canned_solvers example_atlas example_sample 0 1 =
             Inr (divide_by_sum (res_x best)) \<and>
           (\<forall>r\<in>set ?trials. res_fun r \<noteq> NaN \<longrightarrow> np_le (res_fun best) (res_fun r)))"
    by (rule multi_start_returns_best_trial
          [where loglik = log_likelihood_sequencing_perfect and inits = ?inits])
       (simp_all add: example_K canned_solvers_def spread_rvs_def canned_minimize_def
          list_all2_conv_all_nth numeral_2_eq_2, rule exI [of _ 0], simp)
  then obtain best where b: "best \<in> set ?trials"
    "fit_llsp canned_solvers example_atlas example_sample 0 1 = Inr (divide_by_sum (res_x best))"
    "\<forall>r\<in>set ?trials. res_fun r \<noteq> NaN \<longrightarrow> np_le (res_fun best) (res_fun r)"
    by blast
  from b(1) obtain i where i: "i < 10" "best = \<lparr> res_x = [1 - real i / 10, real i / 10],
                                      res_fun = Fin ((1 - real i / 10 - 3/10)\<^sup>2) \<rparr>"
    by auto
  have "\<lparr> res_x = [3/10, 7/10], res_fun = Fin 0 \<rparr> \<in> set ?trials"
    by (simp add: image_iff)
  with b(3) have "np_le (res_fun best) (Fin 0)" by fastforce
  with i have "real i = 7" by simp
  with i b(2) show "fit_llsp canned_solvers example_atlas example_sample 0 1 =
     Inr [Fin (3/10), Fin (7/10)]"
    by (simp add: divide_by_sum_def np_true_divide_def)
qed

text \<open>
  What the drivers do when no trial's objective is below \<open>inf\<close> (every one is \<open>inf\<close> or
  \<open>nan\<close>): \<open>best_sol\<close> is still \<open>None\<close> after the loop, and reading its field \<open>x\<close>
  raises \<open>AttributeError\<close>. No vector is returned, and no error of the driver's own is
  raised.
\<close>

theorem multi_start_all_fail_attribute_error:
  assumes "(fit, loglik) = (fit_llse, log_likelihood_sequencing_with_errors) \<or>
           (fit, loglik) = (fit_llsp, log_likelihood_sequencing_perfect) \<or>
           (fit, loglik) = (\<lambda>sv a s p q. script_fit_llse sv a s p q True,
                            log_likelihood_sequencing_with_errors) \<or>
           (fit, loglik) = (\<lambda>sv a s p q. script_fit_llsp sv a s p q True,
                            log_likelihood_sequencing_perfect)"
    and "0 < atlas_K atlas"
    and "sv_rvs sv (replicate (atlas_K atlas) (1 / real (atlas_K atlas))) 10 = Inr inits"
    and "list_all2
           (\<lambda>init res.
              sv_minimize sv
                \<lparr> arg_fun = (\<lambda>x. case loglik atlas x sample p01 p11 of
                                     Inl e \<Rightarrow> Inl e | Inr v \<Rightarrow> Inr (np_neg v)),
                  arg_x0 = init, arg_method = ''SLSQP'', arg_maxiter = 100, arg_disp = False,
                  arg_bounds = replicate (atlas_K atlas) (0, 1),
                  arg_constraints = [(''eq'', eq_constraint)] \<rparr> = Inr res)
           inits trials"
    and "\<forall>r\<in>set trials. \<not> np_lt (res_fun r) PInf"
  shows "fit sv atlas sample p01 p11 = Inl AttributeError"
proof -
  let ?f = "neg_objective (\<lambda>x. loglik atlas x sample p01 p11)"
  have f: "?f = (\<lambda>x. case loglik atlas x sample p01 p11 of
                        Inl e \<Rightarrow> Inl e | Inr v \<Rightarrow> Inr (np_neg v))"
    by (rule ext) (simp add: neg_objective_def)
  have runs: "list_all2 (\<lambda>init res. sv_minimize sv (slsqp_call ?f atlas init) = Inr res) inits trials"
    using assms(4) by (simp add: slsqp_call_def f)
  have fit: "fit sv atlas sample p01 p11 = multi_start sv ?f atlas"
    using assms(1) by (auto simp: fit_llse_def fit_llsp_def script_multi_start)
  from multi_start_none [OF assms(2,3) runs assms(5)] show ?thesis
    by (simp add: fit)
qed

theorem multi_start_all_fail_attribute_error_witness:
  "fit_llse example_solvers dark_atlas lit_sample 0 1 = Inl AttributeError"
  by (rule multi_start_all_fail_attribute_error
        [where loglik = log_likelihood_sequencing_with_errors
           and inits = "replicate 10 [1]"
           and trials = "replicate 10 \<lparr> res_x = [1], res_fun = PInf \<rparr>"])
     (simp_all add: example_solvers_def example_rvs_def dark_K dark_llse_call
        list_all2_conv_all_nth)

text \<open>
  C6. When every trial fails to bring the objective below its initial value \<open>inf\<close>, the
  specification asks for an \<open>OptimizationFailedError\<close>. The code has no such check: on a
  one-site
  atlas whose cell type is never methylated and a sample with a methylated call at that
  site, the perfect-calling likelihood is \<open>-inf\<close> everywhere, every trial's objective is
  \<open>inf\<close>, and the driver fails with the \<open>AttributeError\<close> of reading \<open>None.x\<close>.
\<close>

theorem all_trials_fail_with_attribute_error:
  "fit_llsp example_solvers dark_atlas lit_sample 0 1 = Inl AttributeError \<and>
   fit_llsp example_solvers dark_atlas lit_sample 0 1 \<noteq> Inl OptimizationFailedError"
proof -
  have k: "atlas_K dark_atlas = 1" by (simp add: dark_atlas_eval)
  have call: "example_minimize (slsqp_call
      (neg_objective (\<lambda>x. log_likelihood_sequencing_perfect dark_atlas x lit_sample 0 1))
      dark_atlas [1]) = Inr \<lparr> res_x = [1], res_fun = PInf \<rparr>"
    by (simp add: example_minimize_def slsqp_call_def feasible_def dark_objective
        k eq_constraint_def)
  have "fit_llsp example_solvers dark_atlas lit_sample 0 1 = Inl AttributeError"
    by (simp add: fit_llsp_def multi_start_def uniform_vector_def example_solvers_def
        example_rvs_def k call eval_nat_numeral return_best_def)
  then show ?thesis by simp
qed

subsection \<open>Simplex closure\<close>

lemma sum_list_divide: "sum_list (map (\<lambda>a. a / s) v) = sum_list v / (s::real)"
  by (induction v) (simp_all add: add_divide_distrib)

lemma divide_by_sum_simplex:
  assumes "list_all (\<lambda>a. 0 \<le> a) v" "0 < sum_list v"
  shows "on_simplex (divide_by_sum v)"
proof -
  let ?w = "map (\<lambda>a. a / sum_list v) v"
  have "divide_by_sum v = map Fin ?w"
    using assms(2) by (simp add: divide_by_sum_def np_true_divide_def)
  moreover have "list_all (\<lambda>a. 0 \<le> a) ?w"
    using assms by (simp add: list_all_iff)
  moreover have "sum_list ?w = 1"
    using assms(2) by (simp add: sum_list_divide)
  ultimately show ?thesis unfolding on_simplex_def by blast
qed

lemma fit_uniform_simplex:
  assumes "fit_uniform atlas s = Inr sigma"
  shows "on_simplex sigma"
proof -
  from assms have k: "0 < atlas_K atlas" and
    s: "sigma = map Fin (replicate (atlas_K atlas) (1 / real (atlas_K atlas)))"
    by (auto simp: fit_uniform_def uniform_vector_def split: if_splits)
  have "sum_list (replicate (atlas_K atlas) (1 / real (atlas_K atlas))) = 1"
    using k by (simp add: sum_list_replicate)
  moreover have "list_all (\<lambda>a. 0 \<le> a) (replicate (atlas_K atlas) (1 / real (atlas_K atlas)))"
    by (simp add: list_all_iff)
  ultimately show ?thesis unfolding on_simplex_def using s by blast
qed

lemma trial_loop_origin:
  "trial_loop sv call inits (bl, bs) = Inr (bl', Some b) \<Longrightarrow>
   bs = Some b \<or> (\<exists>init\<in>set inits. sv_minimize sv (call init) = Inr b)"
proof (induction inits arbitrary: bl bs)
  case Nil
  then show ?case by simp
next
  case (Cons init rest)
  then obtain res where r: "sv_minimize sv (call init) = Inr res"
    by (auto split: sum.splits)
  show ?case
  proof (cases "np_lt (res_fun res) bl")
    case True
    with Cons.prems r have "trial_loop sv call rest (res_fun res, Some res) = Inr (bl', Some b)"
      by (simp add: Let_def)
    from Cons.IH [OF this] r show ?thesis by auto
  next
    case False
    with Cons.prems r have "trial_loop sv call rest (bl, bs) = Inr (bl', Some b)"
      by (simp add: Let_def)
    from Cons.IH [OF this] show ?thesis by auto
  qed
qed

lemma feasible_slsqp:
  assumes "feasible (slsqp_call f atlas init) x"
  shows "list_all (\<lambda>a. 0 \<le> a) x \<and> 0 < sum_list x"
proof -
  from assms have b: "list_all2 (\<lambda>v (lo, hi). lo \<le> v \<and> v \<le> hi) x (replicate (atlas_K atlas) (0, 1))"
    and c: "\<bar>eq_constraint x\<bar> < 1"
    by (simp_all add: feasible_def slsqp_call_def)
  from b have "list_all (\<lambda>a. 0 \<le> a) x"
    by (auto simp: list_all2_conv_all_nth list_all_length)
  moreover from c have "0 < sum_list x" by (simp add: eq_constraint_def)
  ultimately show ?thesis by simp
qed

lemma multi_start_simplex:
  assumes "minimize_contract (sv_minimize sv)" "multi_start sv f atlas = Inr sigma"
  shows "on_simplex sigma"
proof -
  from assms(2) obtain alpha inits bl b where
    loop: "trial_loop sv (slsqp_call f atlas) inits (PInf, None) = Inr (bl, Some b)"
    and sigma: "sigma = divide_by_sum (res_x b)"
    by (auto simp: multi_start_def return_best_def Let_def
        split: sum.splits prod.splits option.splits)
  from trial_loop_origin [OF loop] obtain init where
    "sv_minimize sv (slsqp_call f atlas init) = Inr b" by auto
  with assms(1) have "feasible (slsqp_call f atlas init) (res_x b)"
    by (simp add: minimize_contract_def)
  from feasible_slsqp [OF this] show ?thesis
    unfolding sigma by (intro divide_by_sum_simplex) simp_all
qed

lemma single_start_simplex:
  assumes "minimize_contract (sv_minimize sv)" "single_start sv f atlas = Inr sigma"
  shows "on_simplex sigma"
proof -
  from assms(2) obtain alpha b where
    "sv_minimize sv (slsqp_call f atlas alpha) = Inr b" "sigma = divide_by_sum (res_x b)"
    by (auto simp: single_start_def split: sum.splits)
  with assms(1) have "feasible (slsqp_call f atlas alpha) (res_x b)"
    by (simp add: minimize_contract_def)
  from feasible_slsqp [OF this] show ?thesis
    unfolding \<open>sigma = _\<close> by (intro divide_by_sum_simplex) simp_all
qed

lemma example_minimize_contract: "minimize_contract example_minimize"
  unfolding minimize_contract_def example_minimize_def
  by (auto split: if_splits sum.splits)

lemma fit_nnls_simplex:
  assumes "1 \<le> atlas_K atlas" "list_all (list_all (\<lambda>a. 0 \<le> a \<and> a \<le> 1)) (atlas_A atlas)"
    and "valid_sample (length (atlas_A atlas)) s"
    and "nnls_contract (sv_nnls sv)"
    and "fit_nnls sv atlas s = Inr sigma"
  shows "on_simplex sigma"
proof -
  let ?h = "map2 (\<lambda>mi ti. real mi / real ti) (sample_m s) (sample_t s)"
  from assms(3) have xh: "sample_x_hat s = map Fin ?h"
    by (auto simp: valid_sample_def)
  from assms(3) have lh: "length ?h = length (atlas_A atlas)"
    by (simp add: valid_sample_def)
  have nh: "list_all (\<lambda>a. 0 \<le> a) ?h" by (auto simp: list_all_iff)
  from assms(5) obtain x r where
    res: "sv_nnls sv (atlas_A atlas @ [replicate (atlas_K atlas) 1]) (map Fin ?h @ [Fin 1]) = Inr (x, r)"
    and sigma: "sigma = divide_by_sum x"
    by (auto simp: fit_nnls_def Let_def xh split: sum.splits)
  from assms(1) have k: "0 < atlas_K atlas" by simp
  from assms(2) have rows: "list_all (list_all (\<lambda>a. 0 \<le> a)) (atlas_A atlas)"
    by (auto simp: list_all_iff)
  from nnls_solution_positive_sum [OF assms(4) k rows lh nh res]
  show ?thesis unfolding sigma by (intro divide_by_sum_simplex) simp_all
qed

lemma select_model_simplex:
  assumes "1 \<le> atlas_K atlas" "list_all (list_all (\<lambda>a. 0 \<le> a \<and> a \<le> 1)) (atlas_A atlas)"
    and "valid_sample (length (atlas_A atlas)) s"
    and "nnls_contract (sv_nnls sv)" "minimize_contract (sv_minimize sv)"
    and "select_model sv model atlas s p01 p11 = Inr sigma"
  shows "on_simplex sigma"
  using assms fit_nnls_simplex [of atlas s sv sigma] fit_uniform_simplex [of atlas s sigma]
    multi_start_simplex [of sv _ atlas sigma]
  by (auto simp: select_model_def fit_llse_def fit_llsp_def Let_def split: if_splits)

lemma example_fit_llse:
  "fit_llse example_solvers example_atlas example_sample (1/20) (19/20) =
   Inr [Fin (1/2), Fin (1/2)]"
proof -
  let ?t = "\<lparr> res_x = [1/2, 1/2], res_fun = Fin (- (30 * ln (1/2))) \<rparr>"
  let ?ll = "\<lambda>x. log_likelihood_sequencing_with_errors example_atlas x example_sample
                  (1/20) (19/20)"
  have f: "neg_objective ?ll =
           (\<lambda>x. case ?ll x of Inl e \<Rightarrow> Inl e | Inr v \<Rightarrow> Inr (np_neg v))"
    by (rule ext) (simp add: neg_objective_def)
  have "\<exists>best\<in>set (replicate 10 ?t).
          multi_start example_solvers (neg_objective ?ll) example_atlas =
            Inr (divide_by_sum (res_x best)) \<and>
          (\<forall>r\<in>set (replicate 10 ?t). res_fun r \<noteq> NaN \<longrightarrow> np_le (res_fun best) (res_fun r))"
    by (rule multi_start_some [where inits = "replicate 10 [1/2, 1/2]"])
       (simp_all add: example_K example_solvers_def example_rvs_def slsqp_call_def f
          example_llse_call list_all2_conv_all_nth numeral_2_eq_2)
  then show ?thesis
    by (simp add: fit_llse_def divide_by_sum_def np_true_divide_def)
qed

text \<open>
  C1. For every model name and every valid joined table, with solvers that keep their
  contracts, the mixture vector that \<open>fit_model\<close> returns has finite, non-negative
  entries that sum to 1: each solver-based driver divides its raw result by the result's
  sum, which is positive, and the uniform driver returns \<open>K\<close> entries \<open>1/K\<close>.
\<close>

theorem simplex_closure:
  assumes "read_csv io atlas_path = Inr df_atlas" and "read_csv io methylome = Inr df"
    and "valid_joined (join io (atlas_ranges io df_atlas) (sample_ranges io df))"
    and "nnls_contract (sv_nnls sv)" and "minimize_contract (sv_minimize sv)"
    and "fst (fit_model io sv methylome atlas_path model p01 p11) = Inr sigma"
  shows "on_simplex sigma"
proof -
  let ?gr = "join io (atlas_ranges io df_atlas) (sample_ranges io df)"
  let ?atlas = "ReferenceAtlas_init (j_atlas ?gr)"
  let ?s = "make_sample ''methylome'' (j_calls ?gr)"
  have va: "1 \<le> atlas_K ?atlas"
    "list_all (list_all (\<lambda>a. 0 \<le> a \<and> a \<le> 1)) (atlas_A ?atlas)"
    using atlas_in_range_init [OF assms(3)] by simp_all
  have "length (j_calls ?gr) = length (atlas_A ?atlas)"
    using assms(3) by (simp add: valid_joined_def ReferenceAtlas_init_def Let_def)
  moreover have "valid_sample (length (j_calls ?gr)) ?s"
    using assms(3) by (intro valid_sample_make) (simp add: valid_joined_def)
  ultimately have vs: "valid_sample (length (atlas_A ?atlas)) ?s" by simp
  from assms(1,2,6) have "select_model sv model ?atlas ?s p01 p11 = Inr sigma"
    by (simp add: fit_model_def atlas_columns_def Let_def split: if_splits)
  from select_model_simplex [OF va vs assms(4,5) this] show ?thesis .
qed

theorem simplex_closure_witness:
  "fst (fit_model example_io example_solvers ''sample.tsv'' ''atlas.tsv'' ''nnls'' (1/20) (19/20)) =
     Inr [Fin (9/10), Fin (1/10)] \<and>
   on_simplex [Fin (9/10), Fin (1/10)] \<and>
   fst (fit_model example_io example_solvers ''sample.tsv'' ''atlas.tsv'' ''llse'' (1/20) (19/20)) =
     Inr [Fin (1/2), Fin (1/2)] \<and>
   fst (fit_model example_io example_solvers ''sample.tsv'' ''atlas.tsv'' ''null'' (1/20) (19/20)) =
     Inr [Fin (1/2), Fin (1/2)] \<and>
   on_simplex [Fin (1/2), Fin (1/2)]"
proof -
  have r: "fst (fit_model example_io example_solvers ''sample.tsv'' ''atlas.tsv'' ''nnls''
             (1/20) (19/20)) = Inr [Fin (9/10), Fin (1/10)]"
    by (simp add: fit_model_def example_io_def example_atlas_columns select_model_def example_atlas_init
        example_make_sample [simplified] example_fit_nnls)
  have e: "fst (fit_model example_io example_solvers ''sample.tsv'' ''atlas.tsv'' ''llse''
             (1/20) (19/20)) = Inr [Fin (1/2), Fin (1/2)]"
    by (simp add: fit_model_def example_io_def example_atlas_columns select_model_def example_atlas_init
        example_make_sample [simplified] example_fit_llse)
  have u: "fst (fit_model example_io example_solvers ''sample.tsv'' ''atlas.tsv'' ''null''
             (1/20) (19/20)) = Inr [Fin (1/2), Fin (1/2)]"
    by (simp add: fit_model_def example_io_def example_atlas_columns select_model_def example_atlas_init
        fit_uniform_def uniform_vector_def example_K numeral_2_eq_2)
  have "on_simplex [Fin (9/10), Fin (1/10)]"
    by (rule simplex_closure [OF _ _ example_joined_valid _ _ r])
       (simp_all add: example_io_def example_solvers_def example_nnls_contract
          example_minimize_contract)
  moreover have "on_simplex [Fin (1/2), Fin (1/2)]"
    by (rule simplex_closure [OF _ _ example_joined_valid _ _ e])
       (simp_all add: example_io_def example_solvers_def example_nnls_contract
          example_minimize_contract)
  ultimately show ?thesis using r e u by simp
qed

subsection \<open>Unknown model names\<close>

text \<open>
  C7 (as amended). For a model name other than nnls, llse, llsp and null, once the atlas
  and the methylome (tables with the columns the code names) have been read and their
  join has at least one row, \<open>fit_model\<close> raises \<open>ValueError\<close>, whatever the solvers are:
  no driver runs. (An error of reading either file, and the \<open>KeyError\<close> of an empty
  join, come before the model name is looked at.)
\<close>

theorem unknown_model_raises_after_reading:
  assumes "model \<noteq> ''nnls''" "model \<noteq> ''llse''" "model \<noteq> ''llsp''" "model \<noteq> ''null''"
    and "read_csv io atlas_path = Inr df_atlas"
    and "read_csv io methylome = Inr df"
    and "df_len (j_atlas (join io (atlas_ranges io df_atlas) (sample_ranges io df))) \<noteq> 0"
  shows "fit_model io sv methylome atlas_path model p01 p11 =
         (Inl ValueError, [atlas_path, methylome])"
  using assms by (simp add: fit_model_def atlas_columns_def select_model_def Let_def)

theorem unknown_model_raises_after_reading_witness:
  "fit_model example_io example_solvers ''sample.tsv'' ''atlas.tsv'' ''mmse'' (1/20) (19/20) =
     (Inl ValueError, [''atlas.tsv'', ''sample.tsv''])"
  using unknown_model_raises_after_reading
    [of "''mmse''" example_io "''atlas.tsv''" "''atlas.tsv''" "''sample.tsv''" "''sample.tsv''"
        example_solvers "1/20" "19/20"]
  by (simp add: example_io_def example_frame_def df_len_def)

text \<open>
  As the specification states it (an error of its own kind before any file is read), the
  property fails: with an unknown model name both files are read before the error, which
  is a \<open>ValueError\<close>; when the atlas file is empty, the error of reading it is raised
  instead, and when the join is empty, the \<open>KeyError\<close> of selecting the atlas's columns;
  and the script's \<open>deconvolve\<close>, whose choice of driver comes after the tables are read
  and joined, fails on the unassigned \<open>sigma\<close>.
\<close>

theorem unknown_model_counterexample:
  "fit_model example_io example_solvers ''sample.tsv'' ''atlas.tsv'' ''foo'' (1/20) (19/20) =
     (Inl ValueError, [''atlas.tsv'', ''sample.tsv'']) \<and>
   fit_model example_io example_solvers ''sample.tsv'' ''empty.tsv'' ''foo'' (1/20) (19/20) =
     (Inl EmptyDataError, [''empty.tsv'']) \<and>
   fit_model empty_join_io example_solvers ''sample.tsv'' ''atlas.tsv'' ''foo'' (1/20) (19/20) =
     (Inl KeyError, [''atlas.tsv'', ''sample.tsv'']) \<and>
   deconvolve_select example_solvers ''foo'' example_atlas example_sample (1/20) (19/20) True =
     Inl UnboundLocalError"
  by (simp add: fit_model_def atlas_columns_def example_io_def empty_join_io_def
      example_frame_def df_len_def select_model_def deconvolve_select_def)

end
